theory Spec2Isabelle
  imports Complex_Main
begin

section \<open>JavaScript values used by the server\<close>

subsection \<open>Strings\<close>

text \<open>
  A string is the list of its UTF-16 code units (naturals below 65536), as \<open>length\<close>,
  \<open>includes\<close>, \<open>===\<close> and a regular expression without the \<open>u\<close> flag see it. \<open>js\<close> turns
  a literal of ASCII text into such a string.
\<close>

type_synonym jsstring = "nat list"

definition js :: "string \<Rightarrow> jsstring" where
  "js s = map of_char s"

text \<open>\<open>s.includes(k)\<close>: \<open>k\<close> occurs in \<open>s\<close> as a contiguous run.\<close>

fun includes_str :: "jsstring \<Rightarrow> jsstring \<Rightarrow> bool" where
  "includes_str [] k = (k = [])"
| "includes_str (c # cs) k = (take (length k) (c # cs) = k \<or> includes_str cs k)"

text \<open>\<open>a || b\<close> for an optional string \<open>a\<close>: the empty string and \<open>undefined\<close> are
  falsy.\<close>

definition or_else :: "jsstring option \<Rightarrow> jsstring \<Rightarrow> jsstring" where
  "or_else v d = (case v of None \<Rightarrow> d | Some s \<Rightarrow> if s = [] then d else s)"

text \<open>
  \<open>path.extname\<close> (POSIX): the extension of the last path component, trailing slashes
  ignored, from its last dot on; empty when the component has no dot, when the only dot
  is its first character, and for the component \<open>..\<close>. The slash is code unit 47, the dot
  code unit 46.
\<close>

definition extname :: "jsstring \<Rightarrow> jsstring" where
  "extname p =
     (let trimmed = rev (dropWhile (\<lambda>c. c = 47) (rev p));
          comp = rev (takeWhile (\<lambda>c. c \<noteq> 47) (rev trimmed));
          ext = rev (takeWhile (\<lambda>c. c \<noteq> 46) (rev comp))
      in if 46 \<notin> set comp then []
         else if length comp = Suc (length ext) then []
         else if comp = [46, 46] then []
         else 46 # ext)"

text \<open>
  \<open>String.prototype.toLowerCase\<close> follows the Unicode case mappings (the capital I with
  dot above, U+0130, becomes two code units). The functions that call it take it as their
  argument \<open>toLowerCase\<close>. On ASCII text it moves the letters A to Z up by 32 and keeps
  every other character; \<open>toLowerCase_ascii\<close> is that function, for the sample requests.
\<close>

definition toLowerCase_ascii :: "jsstring \<Rightarrow> jsstring" where
  "toLowerCase_ascii s = map (\<lambda>c. if 65 \<le> c \<and> c \<le> 90 then c + 32 else c) s"

subsection \<open>Integers as numbers\<close>

text \<open>
  Every number is an IEEE 754 double. \<open>bitlen n\<close> is the number of binary digits of a
  positive integer, and \<open>round_shift m s\<close> is \<open>m / 2^s\<close> rounded to the nearest integer,
  a tie going to the even one.
\<close>

function bitlen :: "int \<Rightarrow> nat" where
  "bitlen n = (if n \<le> 0 then 0 else Suc (bitlen (n div 2)))"
  by pat_completeness auto
termination
  by (relation "measure nat") auto

declare bitlen.simps [simp del]

definition round_shift :: "int \<Rightarrow> nat \<Rightarrow> int" where
  "round_shift m s =
     (let q = m div 2 ^ s; r = m mod 2 ^ s
      in if 2 * r < 2 ^ s then q
         else if 2 * r > 2 ^ s then q + 1
         else if even q then q else q + 1)"

text \<open>The double nearest to an integer, as an integer: 53 significant binary digits are
  kept. \<open>MAX_SAFE_INTEGER\<close> is \<open>2^53 - 1\<close>; up to it the integers are doubles.\<close>

definition round_int :: "int \<Rightarrow> int" where
  "round_int n = (let s = bitlen \<bar>n\<bar> - 53 in round_shift n s * 2 ^ s)"

definition MAX_SAFE_INTEGER :: int where
  "MAX_SAFE_INTEGER = 2 ^ 53 - 1"

text \<open>
  A number that holds an integer: a finite one, \<open>NaN\<close>, or an infinity. \<open>to_number n\<close> is
  the number for the mathematical integer \<open>n\<close>: the nearest double, and an infinity from
  \<open>2^1024\<close> on.
\<close>

datatype number = Fin int | NaN | PosInf | NegInf

definition to_number :: "int \<Rightarrow> number" where
  "to_number n =
     (let r = round_int n
      in if 2 ^ 1024 \<le> r then PosInf else if r \<le> - (2 ^ 1024) then NegInf else Fin r)"

text \<open>
  A count stored in the document (\<open>quantity\<close>, \<open>rented\<close>, \<open>available\<close>, a user id) is an
  integer-valued double or \<open>null\<close>: \<open>JSON.stringify\<close> writes \<open>NaN\<close> and the infinities as
  \<open>null\<close>, and the handlers only ever store results of \<open>parseInt\<close> and of adding or
  subtracting 1. \<open>ToNumber\<close> is the conversion that the arithmetic and comparison operators
  apply to a stored count: \<open>null\<close> converts to 0.
\<close>

datatype jsnum = Num int | Null

fun ToNumber :: "jsnum \<Rightarrow> int" where
  "ToNumber (Num n) = n"
| "ToNumber Null = 0"

fun toJSON :: "number \<Rightarrow> jsnum" where
  "toJSON (Fin n) = Num n"
| "toJSON NaN = Null"
| "toJSON PosInf = Null"
| "toJSON NegInf = Null"

text \<open>\<open>x < r\<close> and \<open>x - r\<close> for a number \<open>x\<close> and a finite \<open>r\<close>.\<close>

fun less_than :: "number \<Rightarrow> int \<Rightarrow> bool" where
  "less_than (Fin q) r = (q < r)"
| "less_than NaN r = False"
| "less_than PosInf r = False"
| "less_than NegInf r = True"

fun minus :: "number \<Rightarrow> int \<Rightarrow> number" where
  "minus (Fin q) r = Fin (round_int (q - r))"
| "minus NaN r = NaN"
| "minus PosInf r = PosInf"
| "minus NegInf r = NegInf"

subsection \<open>\<open>parseInt\<close> with no radix argument\<close>

text \<open>
  \<open>parseInt(v)\<close> reads \<open>ToString(v)\<close>: it skips leading white space, takes an optional
  sign, switches to radix 16 after a \<open>0x\<close> or \<open>0X\<close> prefix, and reads the longest run of
  digits; with no digit the result is \<open>NaN\<close>, otherwise it is the number for the integer
  read. A numeric field of a request body is therefore given as the string \<open>ToString\<close>
  yields for it (\<open>undefined\<close> for an absent field). (For a decimal string of more than 20
  significant digits the language allows an implementation to read the later digits as 0;
  the model reads them all.)
\<close>

definition isWhiteSpace :: "nat \<Rightarrow> bool" where
  "isWhiteSpace c =
     (c \<in> {9, 10, 11, 12, 13, 32, 160, 5760, 8232, 8233, 8239, 8287, 12288, 65279}
      \<or> (8192 \<le> c \<and> c \<le> 8202))"

definition digitValue :: "nat \<Rightarrow> nat option" where
  "digitValue c =
     (if 48 \<le> c \<and> c \<le> 57 then Some (c - 48)
      else if 97 \<le> c \<and> c \<le> 102 then Some (c - 87)
      else if 65 \<le> c \<and> c \<le> 70 then Some (c - 55)
      else None)"

definition isRadixDigit :: "nat \<Rightarrow> nat \<Rightarrow> bool" where
  "isRadixDigit R c = (case digitValue c of None \<Rightarrow> False | Some d \<Rightarrow> d < R)"

definition digitsValue :: "nat \<Rightarrow> jsstring \<Rightarrow> int" where
  "digitsValue R Z =
     foldl (\<lambda>a c. a * int R + (case digitValue c of Some d \<Rightarrow> int d | None \<Rightarrow> 0)) 0 Z"

fun stripSign :: "jsstring \<Rightarrow> int \<times> jsstring" where
  "stripSign (c # cs) =
     (if c = 45 then (-1, cs) else if c = 43 then (1, cs) else (1, c # cs))"
| "stripSign [] = (1, [])"

fun stripPrefix :: "jsstring \<Rightarrow> nat \<times> jsstring" where
  "stripPrefix (a # b # cs) =
     (if a = 48 \<and> (b = 120 \<or> b = 88) then (16, cs) else (10, a # b # cs))"
| "stripPrefix cs = (10, cs)"

definition parseInt :: "jsstring \<Rightarrow> number" where
  "parseInt inputString =
     (let (sign, S) = stripSign (dropWhile isWhiteSpace inputString);
          (R, S') = stripPrefix S;
          Z = takeWhile (isRadixDigit R) S'
      in if Z = [] then NaN else to_number (sign * digitsValue R Z))"

subsection \<open>Doubles\<close>

text \<open>
  \<open>Dbl m e\<close> is the double \<open>m * 2^e\<close>, and \<open>dval\<close> its value. The arithmetic operators
  compute the exact result and round it once to 53 significant binary digits, ties to
  even (\<open>normalize\<close>), as IEEE 754 prescribes. The exponent is not bounded: the numbers
  of this program (scores between 0 and 150 built from draws of \<open>Math.random()\<close>, and
  ratios of file sizes) stay in the range of the normal doubles, where no overflow or
  underflow occurs. A decimal literal \<open>p/q\<close> of the source is the quotient \<open>ddiv\<close> of the
  integers \<open>p\<close> and \<open>q\<close>, which is the double nearest to it.
\<close>

datatype double = Dbl (mant: int) (expo: int)

definition dval :: "double \<Rightarrow> real" where
  "dval d =
     (if 0 \<le> expo d then real_of_int (mant d) * 2 ^ nat (expo d)
      else real_of_int (mant d) / 2 ^ nat (- expo d))"

definition normalize_double :: "int \<Rightarrow> int \<Rightarrow> double" where
  "normalize_double m e = (let s = bitlen \<bar>m\<bar> - 53 in Dbl (round_shift m s) (e + int s))"

text \<open>The numerator of a double over the power \<open>2^e\<close>, for \<open>e\<close> at most its exponent.\<close>

definition align :: "int \<Rightarrow> double \<Rightarrow> int" where
  "align e d = mant d * 2 ^ nat (expo d - e)"

definition dless :: "double \<Rightarrow> double \<Rightarrow> bool" where
  "dless a b = (let e = min (expo a) (expo b) in align e a < align e b)"

definition dadd :: "double \<Rightarrow> double \<Rightarrow> double" where
  "dadd a b = (let e = min (expo a) (expo b) in normalize_double (align e a + align e b) e)"

definition dsub :: "double \<Rightarrow> double \<Rightarrow> double" where
  "dsub a b = (let e = min (expo a) (expo b) in normalize_double (align e a - align e b) e)"

definition dmul :: "double \<Rightarrow> double \<Rightarrow> double" where
  "dmul a b = normalize_double (mant a * mant b) (expo a + expo b)"

text \<open>
  Division by a double other than zero (the source divides only under such a guard): the
  quotient of the numerators is taken to more than 55 binary digits, with one more digit
  that records whether the division left a remainder, and then rounded.
\<close>

definition ddiv :: "double \<Rightarrow> double \<Rightarrow> double" where
  "ddiv a b =
     (let n = \<bar>mant a\<bar>; d = \<bar>mant b\<bar>;
          k = (56 + bitlen d) - bitlen n;
          q = (n * 2 ^ k) div d;
          sticky = (if (n * 2 ^ k) mod d = 0 then 0 else 1);
          m = 2 * q + sticky
      in normalize_double (sgn (mant a) * sgn (mant b) * m) (expo a - expo b - int k - 1))"

definition dmin :: "double \<Rightarrow> double \<Rightarrow> double" where
  "dmin a b = (if dless b a then b else a)"

text \<open>The double of an integer (a file size), and of a decimal literal.\<close>

definition double_of_int :: "int \<Rightarrow> double" where
  "double_of_int n = normalize_double n 0"

definition literal :: "int \<Rightarrow> int \<Rightarrow> double" where
  "literal p q = ddiv (Dbl p 0) (Dbl q 0)"

text \<open>\<open>Math.round\<close> (the nearest integer, a half going up) and \<open>Math.floor\<close>, which are
  exact.\<close>

definition Math_round :: "double \<Rightarrow> int" where
  "Math_round d =
     (if 0 \<le> expo d then mant d * 2 ^ nat (expo d)
      else (2 * mant d + 2 ^ nat (- expo d)) div 2 ^ Suc (nat (- expo d)))"

definition Math_floor :: "double \<Rightarrow> int" where
  "Math_floor d =
     (if 0 \<le> expo d then mant d * 2 ^ nat (expo d) else mant d div 2 ^ nat (- expo d))"

text \<open>A value that \<open>Math.random()\<close> can return: a multiple of \<open>2^-53\<close> from 0 up to, but
  not including, 1 (the engine of Node builds its draws from at most 53 random bits).\<close>

definition is_draw :: "double \<Rightarrow> bool" where
  "is_draw d =
     (0 \<le> mant d \<and> dless d (Dbl 1 0)
      \<and> (- 53 \<le> expo d \<or> 2 ^ nat (- 53 - expo d) dvd mant d))"

subsection \<open>Array lookups\<close>

text \<open>\<open>Array.prototype.findIndex\<close>: the index of the first element that satisfies the
  predicate, \<open>None\<close> for the source's \<open>-1\<close>. \<open>find\<close> returns that element (a reference
  into the array, so a later assignment to its fields updates the array at that index).\<close>

fun findIndex :: "('a \<Rightarrow> bool) \<Rightarrow> 'a list \<Rightarrow> nat option" where
  "findIndex P [] = None"
| "findIndex P (x # xs) = (if P x then Some 0 else map_option Suc (findIndex P xs))"

section \<open>The document\<close>

text \<open>
  Field names carry the prefix of their record (\<open>t_\<close> tool, \<open>r_\<close> rental, \<open>l_\<close> log entry,
  \<open>u_\<close> user, \<open>a_\<close> admin), since the source reuses names across objects. An optional
  string is \<open>None\<close> where the source holds \<open>undefined\<close> or \<open>null\<close>. Prices are values of
  a type \<open>'f\<close> of numbers that the model does not interpret; \<open>parseFloat\<close> is passed to
  the handlers that call it.
\<close>

record specs =
  power :: jsstring
  rpm :: jsstring
  weight :: jsstring
  condition :: jsstring

record 'f tool =
  t_id :: jsstring
  t_name :: "jsstring option"
  t_beforeImage :: "jsstring option"
  t_price :: 'f
  t_quantity :: jsnum
  t_rented :: jsnum
  t_available :: jsnum
  t_description :: jsstring
  t_specs :: specs

datatype rental_status = RENTED | RETURNED

record 'f rental =
  r_rentalId :: jsstring
  r_toolId :: "jsstring option"
  r_userId :: jsnum
  r_userName :: jsstring
  r_userEmail :: jsstring
  r_rentDays :: jsnum
  r_totalPrice :: 'f
  r_rentalDate :: jsstring
  r_status :: rental_status
  r_returnDate :: "jsstring option"
  r_afterImage :: "jsstring option"

datatype log_action = AUTO_RESOLVED | RESOLVED

record log_entry =
  l_id :: int
  l_toolId :: "jsstring option"
  l_userId :: jsnum
  l_userName :: jsstring
  l_rentalId :: "jsstring option"
  l_beforeImage :: "jsstring option"
  l_afterImage :: jsstring
  l_damageScore :: int
  l_aiDetected :: bool
  l_aiConfidence :: int
  l_damageDetected :: bool
  l_damageConfidence :: int
  l_imageSimilarity :: int
  l_status :: jsstring
  l_timestamp :: jsstring
  l_action :: log_action

record user =
  u_id :: int
  u_email :: jsstring
  u_password :: jsstring
  u_role :: jsstring
  u_name :: jsstring
  u_joinedDate :: jsstring

record admin =
  a_email :: jsstring
  a_password :: jsstring
  a_role :: jsstring
  a_name :: jsstring

record 'f document =
  admin :: "admin option"
  users :: "user list"
  tools :: "'f tool list"
  rentals :: "'f rental list"
  logs :: "log_entry list"

text \<open>
  The message of a reply is a template: fixed ASCII text (\<open>Text\<close>), fixed code units
  (\<open>Units\<close>, for the check mark U+2705 of two messages), and the values that a template
  literal interpolates, a string that may be \<open>undefined\<close> (\<open>Value\<close>) or a stored count
  (\<open>Count\<close>).
\<close>

datatype fragment = Text string | Units jsstring | Value "jsstring option" | Count jsnum

text \<open>A JSON reply \<open>res.status(code).json({success, message, ...})\<close> with the object it
  carries besides (\<open>tool\<close> or \<open>rental\<close>), or an exception that leaves the handler and
  reaches the framework's error handler.\<close>

datatype 'a response =
  Json (status: nat) (success: bool) (message: "fragment list") (payload: "'a option")
| Uncaught string

section \<open>The document store\<close>

text \<open>
  \<open>writeDB(data)\<close> at the level of documents: \<open>fs_ok\<close> says whether the two file
  operations succeed. It returns the boolean of the source together with the document
  that \<open>readDB\<close> finds afterwards: \<open>data\<close> after a successful save, the \<open>stored\<close> one
  after a failed save (the \<open>catch\<close> returns \<open>false\<close>).
\<close>

definition writeDB :: "bool \<Rightarrow> 'd \<Rightarrow> 'd \<Rightarrow> bool \<times> 'd" where
  "writeDB fs_ok stored data = (if fs_ok then (True, data) else (False, stored))"

section \<open>Renting\<close>

text \<open>The body of \<open>POST /api/rent\<close>. \<open>toolId\<close> is \<open>None\<close> when absent; the numeric fields
  are given by their \<open>ToString\<close>.\<close>

record rent_request =
  rq_toolId :: "jsstring option"
  rq_userId :: jsstring
  rq_userName :: jsstring
  rq_userEmail :: jsstring
  rq_rentDays :: jsstring
  rq_totalPrice :: jsstring

definition find_tool_index :: "'f tool list \<Rightarrow> jsstring option \<Rightarrow> nat option" where
  "find_tool_index ts toolId = findIndex (\<lambda>t. Some (t_id t) = toolId) ts"

definition find_tool :: "'f tool list \<Rightarrow> jsstring option \<Rightarrow> 'f tool option" where
  "find_tool ts toolId = map_option (\<lambda>i. ts ! i) (find_tool_index ts toolId)"

text \<open>
  \<open>POST /api/rent\<close>. \<open>uuid\<close> is the value of \<open>uuidv4()\<close>, \<open>now\<close> that of
  \<open>new Date().toISOString()\<close>. The handler reads the stored document \<open>db\<close>, and returns
  its reply and the document stored afterwards; the result of \<open>writeDB\<close> is dropped, as
  in the source. The sum and the difference are doubles (\<open>round_int\<close>).
\<close>

definition rent ::
  "(jsstring \<Rightarrow> 'f) \<Rightarrow> jsstring \<Rightarrow> jsstring \<Rightarrow> bool \<Rightarrow> rent_request \<Rightarrow> 'f document
     \<Rightarrow> 'f rental response \<times> 'f document" where
  "rent parseFloat uuid now fs_ok req db =
     (case find_tool_index (tools db) (rq_toolId req) of
        None \<Rightarrow> (Json 400 False [Text ''Tool is unavailable.''] None, db)
      | Some i \<Rightarrow>
          let tool = tools db ! i in
          if ToNumber (t_available tool) \<le> 0
          then (Json 400 False [Text ''Tool is unavailable.''] None, db)
          else
            let tool' = tool\<lparr>t_rented := Num (round_int (ToNumber (t_rented tool) + 1)),
                             t_available := Num (round_int (ToNumber (t_available tool) - 1))\<rparr>;
                newRental = \<lparr>r_rentalId = uuid,
                             r_toolId = rq_toolId req,
                             r_userId = toJSON (parseInt (rq_userId req)),
                             r_userName = rq_userName req,
                             r_userEmail = rq_userEmail req,
                             r_rentDays = toJSON (parseInt (rq_rentDays req)),
                             r_totalPrice = parseFloat (rq_totalPrice req),
                             r_rentalDate = now,
                             r_status = RENTED,
                             r_returnDate = None,
                             r_afterImage = None\<rparr>;
                db' = db\<lparr>tools := (tools db)[i := tool'],
                          rentals := rentals db @ [newRental]\<rparr>;
                (_, stored) = writeDB fs_ok db db'
            in (Json 200 True [Text ''Tool rented successfully.''] (Some newRental), stored))"

section \<open>The catalogue\<close>

text \<open>The body of \<open>POST /api/admin/tools\<close>. \<open>price\<close> and \<open>quantity\<close> are given by their
  \<open>ToString\<close>; the other fields are \<open>None\<close> when absent.\<close>

record tool_request =
  tq_id :: "jsstring option"
  tq_name :: "jsstring option"
  tq_price :: jsstring
  tq_quantity :: jsstring
  tq_beforeImage :: "jsstring option"
  tq_description :: "jsstring option"
  tq_specs :: "specs option"

text \<open>The id of a new tool: \<open>name.toLowerCase().replace(/[^a-z0-9]/g, '-')\<close>. The
  expression replaces code unit by code unit; the hyphen is code unit 45.\<close>

definition isLowerAlnum :: "nat \<Rightarrow> bool" where
  "isLowerAlnum c = ((97 \<le> c \<and> c \<le> 122) \<or> (48 \<le> c \<and> c \<le> 57))"

definition newToolId :: "(jsstring \<Rightarrow> jsstring) \<Rightarrow> jsstring \<Rightarrow> jsstring" where
  "newToolId toLowerCase name = map (\<lambda>c. if isLowerAlnum c then c else 45) (toLowerCase name)"

definition default_specs :: specs where
  "default_specs = \<lparr>power = js ''N/A'', rpm = js ''N/A'', weight = js ''N/A'', condition = js ''New''\<rparr>"

text \<open>
  \<open>POST /api/admin/tools\<close>: the update path when \<open>id\<close> names a tool, the create path
  otherwise. On the update path \<open>name\<close> and \<open>price\<close> are assigned before the quantity is
  checked, but the early return saves nothing, so the stored document keeps them. On the
  create path an absent \<open>name\<close> makes \<open>name.toLowerCase()\<close> throw.
\<close>

definition admin_tools ::
  "(jsstring \<Rightarrow> jsstring) \<Rightarrow> (jsstring \<Rightarrow> 'f) \<Rightarrow> bool \<Rightarrow> tool_request \<Rightarrow> 'f document
     \<Rightarrow> 'f tool response \<times> 'f document" where
  "admin_tools toLowerCase parseFloat fs_ok req db =
     (case find_tool_index (tools db) (tq_id req) of
        Some toolIndex \<Rightarrow>
          let tool = tools db ! toolIndex;
              newQuantity = parseInt (tq_quantity req)
          in if less_than newQuantity (ToNumber (t_rented tool))
             then (Json 400 False
                     [Text ''Cannot reduce quantity below rented ('', Count (t_rented tool), Text '').'']
                     None, db)
             else
               let tool' = tool\<lparr>t_name := tq_name req,
                                t_price := parseFloat (tq_price req),
                                t_quantity := toJSON newQuantity,
                                t_available := toJSON (minus newQuantity (ToNumber (t_rented tool))),
                                t_beforeImage := tq_beforeImage req,
                                t_description := or_else (tq_description req) (t_description tool),
                                t_specs := (case tq_specs req of None \<Rightarrow> t_specs tool | Some sp \<Rightarrow> sp)\<rparr>;
                   db' = db\<lparr>tools := (tools db)[toolIndex := tool']\<rparr>;
                   (_, stored) = writeDB fs_ok db db'
               in (Json 200 True [Text ''Tool updated successfully.''] (Some tool'), stored)
      | None \<Rightarrow>
          (case tq_name req of
             None \<Rightarrow> (Uncaught ''TypeError'', db)
           | Some name \<Rightarrow>
               let newId = newToolId toLowerCase name in
               if \<exists>t \<in> set (tools db). t_id t = newId
               then (Json 400 False [Text ''Tool name already exists.''] None, db)
               else
                 let newTool = \<lparr>t_id = newId,
                                t_name = Some name,
                                t_beforeImage = tq_beforeImage req,
                                t_price = parseFloat (tq_price req),
                                t_quantity = toJSON (parseInt (tq_quantity req)),
                                t_rented = Num 0,
                                t_available = toJSON (parseInt (tq_quantity req)),
                                t_description = or_else (tq_description req) (js ''New tool added.''),
                                t_specs = (case tq_specs req of None \<Rightarrow> default_specs | Some sp \<Rightarrow> sp)\<rparr>;
                     db' = db\<lparr>tools := tools db @ [newTool]\<rparr>;
                     (_, stored) = writeDB fs_ok db db'
                 in (Json 200 True [Text ''New tool added successfully.''] (Some newTool), stored)))"

text \<open>\<open>DELETE /api/admin/tools/:toolId\<close>.\<close>

definition delete_tool :: "bool \<Rightarrow> jsstring \<Rightarrow> 'f document \<Rightarrow> unit response \<times> 'f document" where
  "delete_tool fs_ok toolId db =
     (let remaining = filter (\<lambda>t. t_id t \<noteq> toolId) (tools db) in
      if length remaining < length (tools db)
      then let (_, stored) = writeDB fs_ok db (db\<lparr>tools := remaining\<rparr>)
           in (Json 200 True [Text ''Tool deleted successfully.''] None, stored)
      else (Json 404 False [Text ''Tool not found.''] None, db))"

section \<open>The scorers\<close>

text \<open>Each call of \<open>Math.random()\<close> is an argument of the function, in the order of the
  calls.\<close>

record ai_result =
  is_ai_generated :: bool
  confidence :: int
  allow_upload :: bool
  damage_detected :: bool
  damage_confidence :: int
  warnings :: "jsstring list"

definition aiKeywords :: "jsstring list" where
  "aiKeywords = [js ''ai'', js ''generated'', js ''stable'', js ''dall'', js ''midjourney'']"

text \<open>The value of \<open>aiScore\<close> when \<open>detectAIImage\<close> reads it: the size, keyword and
  extension signals, then the two random terms, each added in double arithmetic.\<close>

definition aiScore ::
  "(jsstring \<Rightarrow> jsstring) \<Rightarrow> nat \<Rightarrow> jsstring \<Rightarrow> double \<Rightarrow> double \<Rightarrow> double" where
  "aiScore toLowerCase fileSize fileName rnd1 rnd2 =
     (let s0 = Dbl 0 0;
          s1 = (if fileSize < 50000 then dadd s0 (literal 3 10) else s0);
          s2 = (if fileSize > 5000000 then dadd s1 (literal 1 10) else s1);
          lowerFileName = toLowerCase fileName;
          foundKeywords = filter (\<lambda>keyword. includes_str lowerFileName keyword) aiKeywords;
          s3 = (if length foundKeywords > 0 then dadd s2 (literal 4 10) else s2);
          ext = toLowerCase (extname fileName);
          s4 = (if ext = js ''.png'' then dadd s3 (literal 2 10) else s3);
          s5 = (if ext = js ''.webp'' then dadd s4 (literal 15 100) else s4);
          s6 = dadd s5 (dmul rnd1 (literal 4 10))
      in dadd s6 (dmul rnd2 (literal 2 10)))"

definition detectAIImage ::
  "(jsstring \<Rightarrow> jsstring) \<Rightarrow> double \<Rightarrow> double \<Rightarrow> double \<Rightarrow> double \<Rightarrow> jsstring \<Rightarrow> jsstring \<Rightarrow> nat
     \<Rightarrow> ai_result" where
  "detectAIImage toLowerCase rnd1 rnd2 rnd3 rnd4 filePath fileName fileSize =
     (let total = aiScore toLowerCase fileSize fileName rnd1 rnd2;
          damageDetected = dless rnd3 (literal 2 10);
          damageConfidence =
            (if damageDetected then Math_floor (dmul rnd4 (Dbl 30 0)) + 70
             else Math_floor (dmul rnd4 (Dbl 20 0)));
          isAIGenerated = dless (literal 7 10) total;
          conf = min 98 (Math_round (dmul total (Dbl 100 0)))
      in \<lparr>is_ai_generated = isAIGenerated,
          confidence = conf,
          allow_upload = (\<not> isAIGenerated \<or> conf < 80),
          damage_detected = damageDetected,
          damage_confidence = damageConfidence,
          warnings = []\<rparr>)"

record comparison =
  similar :: bool
  score :: int

text \<open>The body of the \<open>try\<close> of \<open>compareImages\<close>, for the sizes that \<open>fs.statSync\<close>
  reports.\<close>

definition compare_sizes :: "int \<Rightarrow> int \<Rightarrow> double \<Rightarrow> comparison" where
  "compare_sizes size1 size2 rnd =
     (let difference = dsub (double_of_int size1) (double_of_int size2);
          sizeDiff = Dbl \<bar>mant difference\<bar> (expo difference);
          maxSize = double_of_int (max size1 size2);
          sizeSimilarity =
            (if dless (Dbl 0 0) maxSize then dsub (Dbl 1 0) (ddiv sizeDiff maxSize)
             else literal 3 10);
          baseSimilarity = dadd (literal 3 10) (dmul rnd (literal 5 10));
          finalSimilarity =
            dmin (literal 95 100)
              (dadd (dmul sizeSimilarity (literal 2 10)) (dmul baseSimilarity (literal 8 10)))
      in \<lparr>similar = dless (literal 6 10) finalSimilarity,
          score = Math_round (dmul finalSimilarity (Dbl 100 0))\<rparr>)"

text \<open>\<open>compareImages\<close>: \<open>files\<close> gives the size of each file on disk; \<open>fs.statSync\<close> throws
  for a missing file, and the \<open>catch\<close> answers not similar with score 0.\<close>

definition compareImages ::
  "(jsstring \<Rightarrow> nat option) \<Rightarrow> double \<Rightarrow> jsstring \<Rightarrow> jsstring \<Rightarrow> comparison" where
  "compareImages files rnd file1Path file2Path =
     (case files file1Path of
        None \<Rightarrow> \<lparr>similar = False, score = 0\<rparr>
      | Some size1 \<Rightarrow>
          (case files file2Path of
             None \<Rightarrow> \<lparr>similar = False, score = 0\<rparr>
           | Some size2 \<Rightarrow> compare_sizes (int size1) (int size2) rnd))"

section \<open>The return pipeline\<close>

text \<open>The file bound by the upload middleware, and the body of \<open>POST /api/return/check\<close>
  (\<open>cq_file\<close> is \<open>None\<close> when no image came with the request).\<close>

record upload_file =
  f_path :: jsstring
  f_originalname :: jsstring
  f_size :: nat
  f_filename :: jsstring

record return_request =
  cq_toolId :: "jsstring option"
  cq_rentalId :: "jsstring option"
  cq_userId :: jsstring
  cq_file :: "upload_file option"

text \<open>
  What the handler reads from outside the document: the library function
  \<open>toLowerCase\<close>, the six calls of \<open>Math.random()\<close> (two for the score, two for the damage
  judgment, one in \<open>compareImages\<close>, one for the damage score of an undamaged return), the
  two readings of the clock, the path \<open>path.join(UPLOAD_DIR_BEFORE, name)\<close> of a reference
  image, and whether the save succeeds.
\<close>

record return_env =
  env_toLowerCase :: "jsstring \<Rightarrow> jsstring"
  rnd_score1 :: double
  rnd_score2 :: double
  rnd_damage :: double
  rnd_damage_conf :: double
  rnd_similarity :: double
  rnd_damage_score :: double
  now_return :: jsstring
  now_log :: jsstring
  before_path :: "jsstring \<Rightarrow> jsstring"
  save_ok :: bool

type_synonym disk = "jsstring \<Rightarrow> nat option"

text \<open>
  An abort of the pipeline: \<open>fs.unlinkSync(req.file.path)\<close>, then the reply. Unlinking a
  file that is not there throws; the \<open>catch\<close> of the handler then finds no file to
  remove and answers 500.
\<close>

definition abort_return ::
  "unit response \<Rightarrow> upload_file \<Rightarrow> 'f document \<Rightarrow> disk \<Rightarrow> unit response \<times> 'f document \<times> disk" where
  "abort_return reply file db files =
     (case files (f_path file) of
        None \<Rightarrow> (Json 500 False [Text ''Error processing return.''] None, db, files)
      | Some _ \<Rightarrow> (reply, db, files(f_path file := None)))"

definition mismatch_message :: "jsstring option \<Rightarrow> fragment list" where
  "mismatch_message name =
     [Text ''The uploaded image doesn't appear to show the same tool. Please upload a clear photo of the actual '',
      Value name, Text ''.'']"

text \<open>
  The result of the similarity step: \<open>None\<close> when the pipeline aborts there, otherwise the
  \<open>comparisonResult\<close> the later steps read. The comparison runs only when the tool has a
  non-empty \<open>beforeImage\<close> and that file exists in the directory of reference images.
\<close>

definition similarity_step ::
  "return_env \<Rightarrow> disk \<Rightarrow> 'f tool \<Rightarrow> upload_file \<Rightarrow> comparison option" where
  "similarity_step env files tool file =
     (let comparisonResult = \<lparr>similar = False, score = 0\<rparr> in
      case t_beforeImage tool of
        None \<Rightarrow> Some comparisonResult
      | Some beforeImage \<Rightarrow>
          if beforeImage = [] then Some comparisonResult
          else
            let originalPath = before_path env beforeImage in
            if files originalPath \<noteq> None
            then
              let comparisonResult =
                    compareImages files (rnd_similarity env) originalPath (f_path file)
              in if \<not> similar comparisonResult \<or> score comparisonResult < 60 then None
                 else Some comparisonResult
            else Some comparisonResult)"

text \<open>Step 1: \<open>detectAIImage(req.file.path, req.file.originalname, req.file.size)\<close> with
  the four random draws it makes.\<close>

definition upload_judgment :: "return_env \<Rightarrow> upload_file \<Rightarrow> ai_result" where
  "upload_judgment env file =
     detectAIImage (env_toLowerCase env) (rnd_score1 env) (rnd_score2 env) (rnd_damage env)
       (rnd_damage_conf env) (f_path file) (f_originalname file) (f_size file)"

text \<open>Steps 3 to 5 and the save, once both checks have passed.\<close>

definition find_rental_index :: "'f rental list \<Rightarrow> jsstring option \<Rightarrow> nat option" where
  "find_rental_index rs rentalId = findIndex (\<lambda>r. Some (r_rentalId r) = rentalId) rs"

definition check_mark :: jsstring where
  "check_mark = [9989]"

definition commit_return ::
  "return_env \<Rightarrow> return_request \<Rightarrow> upload_file \<Rightarrow> nat \<Rightarrow> ai_result \<Rightarrow> comparison
     \<Rightarrow> 'f document \<Rightarrow> disk \<Rightarrow> unit response \<times> 'f document \<times> disk" where
  "commit_return env req file toolIndex aiResult comparisonResult db files =
     (case find_rental_index (rentals db) (cq_rentalId req) of
        None \<Rightarrow> abort_return (Json 404 False [Text ''Rental not found.''] None) file db files
      | Some rentalIndex \<Rightarrow>
          let tool = tools db ! toolIndex;
              rental' = (rentals db ! rentalIndex)
                          \<lparr>r_status := RETURNED,
                           r_returnDate := Some (now_return env),
                           r_afterImage := Some (f_filename file)\<rparr>;
              tool' = tool\<lparr>t_rented := Num (max 0 (round_int (ToNumber (t_rented tool) - 1))),
                           t_available := Num (round_int (ToNumber (t_available tool) + 1))\<rparr>;
              newLogId = (if logs db = [] then 1 else Max (set (map l_id (logs db))) + 1);
              logEntry = \<lparr>l_id = newLogId,
                          l_toolId = cq_toolId req,
                          l_userId = toJSON (parseInt (cq_userId req)),
                          l_userName = r_userName rental',
                          l_rentalId = cq_rentalId req,
                          l_beforeImage = t_beforeImage tool',
                          l_afterImage = f_filename file,
                          l_damageScore =
                            (if damage_detected aiResult then max 70 (damage_confidence aiResult)
                             else Math_floor (dmul (rnd_damage_score env) (Dbl 30 0))),
                          l_aiDetected = is_ai_generated aiResult,
                          l_aiConfidence = confidence aiResult,
                          l_damageDetected = damage_detected aiResult,
                          l_damageConfidence = damage_confidence aiResult,
                          l_imageSimilarity = score comparisonResult,
                          l_status =
                            (if confidence aiResult > 70 then js ''AI Detected - Review Required''
                             else js ''Available''),
                          l_timestamp = now_log env,
                          l_action = AUTO_RESOLVED\<rparr>;
              db' = db\<lparr>tools := (tools db)[toolIndex := tool'],
                        rentals := (rentals db)[rentalIndex := rental'],
                        logs := logs db @ [logEntry]\<rparr>;
              (_, stored) = writeDB (save_ok env) db db'
          in (Json 200 True
                (if confidence aiResult > 70
                 then [Units check_mark, Text '' Tool returned successfully. Image requires review.'']
                 else [Units check_mark,
                       Text '' Tool returned successfully and is available for rent.''])
                None, stored, files))"

text \<open>\<open>POST /api/return/check\<close>: the reply, the document stored afterwards and the files
  on disk afterwards.\<close>

definition return_check ::
  "return_env \<Rightarrow> return_request \<Rightarrow> 'f document \<Rightarrow> disk \<Rightarrow> unit response \<times> 'f document \<times> disk" where
  "return_check env req db files =
     (case cq_file req of
        None \<Rightarrow> (Json 400 False [Text ''No image uploaded.''] None, db, files)
      | Some file \<Rightarrow>
          (case find_tool_index (tools db) (cq_toolId req) of
             None \<Rightarrow> (Json 400 False [Text ''Tool not found.''] None, db, files)
           | Some toolIndex \<Rightarrow>
               let tool = tools db ! toolIndex;
                   aiResult = upload_judgment env file
               in if \<not> allow_upload aiResult
                  then abort_return
                         (Json 400 False
                            [Text ''The uploaded image appears to be AI-generated. Please upload a real photo.'']
                            None) file db files
                  else
                    (case similarity_step env files tool file of
                       None \<Rightarrow>
                         abort_return (Json 400 False (mismatch_message (t_name tool)) None)
                           file db files
                     | Some comparisonResult \<Rightarrow>
                         commit_return env req file toolIndex aiResult comparisonResult db files)))"

section \<open>Audit resolution\<close>

record action_request =
  aq_logId :: jsstring
  aq_action :: jsstring

text \<open>The three remediation actions on the tool of a log entry; any other action leaves
  the tool as it is.\<close>

definition apply_action :: "jsstring \<Rightarrow> 'f tool \<Rightarrow> 'f tool" where
  "apply_action action tool =
     (if action = js ''Repaired''
      then tool\<lparr>t_available := Num (round_int (ToNumber (t_available tool) + 1))\<rparr>
      else if action = js ''Remove'' then
        let quantity' = max 0 (round_int (ToNumber (t_quantity tool) - 1))
        in tool\<lparr>t_quantity := Num quantity',
                t_available := Num (min (ToNumber (t_available tool)) quantity')\<rparr>
      else if action = js ''MakeAvailable'' then
        tool\<lparr>t_available := Num (round_int (ToNumber (t_available tool) + 1))\<rparr>
      else tool)"

text \<open>\<open>db.logs.find(l => l.id === parseInt(logId))\<close>, which holds for no \<open>NaN\<close> and no
  infinity.\<close>

definition find_log_index :: "log_entry list \<Rightarrow> jsstring \<Rightarrow> nat option" where
  "find_log_index ls logId = findIndex (\<lambda>l. Fin (l_id l) = parseInt logId) ls"

text \<open>\<open>POST /api/admin/logs/action\<close>.\<close>

definition logs_action ::
  "bool \<Rightarrow> action_request \<Rightarrow> 'f document \<Rightarrow> unit response \<times> 'f document" where
  "logs_action fs_ok req db =
     (case find_log_index (logs db) (aq_logId req) of
        None \<Rightarrow> (Json 400 False [Text ''Log not found.''] None, db)
      | Some logIndex \<Rightarrow>
          let log = logs db ! logIndex;
              logs' = (logs db)[logIndex := log\<lparr>l_action := RESOLVED\<rparr>]
          in (case find_tool_index (tools db) (l_toolId log) of
                None \<Rightarrow>
                  let (_, stored) = writeDB fs_ok db (db\<lparr>logs := logs'\<rparr>)
                  in (Json 404 False [Text ''Tool not found.''] None, stored)
              | Some toolIndex \<Rightarrow>
                  let tool' = apply_action (aq_action req) (tools db ! toolIndex);
                      db' = db\<lparr>tools := (tools db)[toolIndex := tool'], logs := logs'\<rparr>;
                      (_, stored) = writeDB fs_ok db db'
                  in (Json 200 True [Text ''Log '', Value (Some (aq_logId req)), Text '' resolved.'']
                        None, stored)))"

section \<open>Saving, file by file\<close>

text \<open>
  \<open>writeDB\<close> as the file operations it performs, on a file system that maps a path to
  the content of its file. \<open>fs.writeFileSync\<close> truncates the file and then writes the
  text, so while it runs (and after it fails or the process is killed) the file holds
  a prefix of the text. \<open>fs.renameSync\<close> is the \<open>rename\<close> system call, which replaces the
  target in one step. Power loss with unflushed buffers is not modelled.
\<close>

type_synonym filesystem = "string \<Rightarrow> string option"

datatype fs_op = WriteFile string string | Rename string string

text \<open>The file systems that one operation passes through, the last one being the state
  after it has completed.\<close>

fun op_states :: "fs_op \<Rightarrow> filesystem \<Rightarrow> filesystem list" where
  "op_states (WriteFile p content) fs = map (\<lambda>k. fs(p \<mapsto> take k content)) [0..<Suc (length content)]"
| "op_states (Rename src dst) fs = [(fs(src := None))(dst := fs src)]"

fun run_states :: "fs_op list \<Rightarrow> filesystem \<Rightarrow> filesystem list" where
  "run_states [] fs = [fs]"
| "run_states (operation # ops) fs =
     fs # butlast (op_states operation fs) @ run_states ops (last (op_states operation fs))"

text \<open>The two operations of \<open>writeDB\<close>, for the serialised document \<open>json\<close>
  (\<open>JSON.stringify(data, null, 2)\<close>), and every state of the file system from the call to
  its completion.\<close>

definition tempPath :: "string \<Rightarrow> string" where
  "tempPath DB_PATH = DB_PATH @ ''.tmp''"

definition writeDB_ops :: "string \<Rightarrow> string \<Rightarrow> fs_op list" where
  "writeDB_ops DB_PATH json = [WriteFile (tempPath DB_PATH) json, Rename (tempPath DB_PATH) DB_PATH]"

definition writeDB_states :: "string \<Rightarrow> string \<Rightarrow> filesystem \<Rightarrow> filesystem list" where
  "writeDB_states DB_PATH json fs = run_states (writeDB_ops DB_PATH json) fs"

section \<open>Properties stated by the specification\<close>

text \<open>The inventory invariant of a tool, and of every tool of a document.\<close>

definition tool_inv :: "'f tool \<Rightarrow> bool" where
  "tool_inv t =
     (case (t_quantity t, t_rented t, t_available t) of
        (Num q, Num r, Num a) \<Rightarrow> a = q - r \<and> 0 \<le> r \<and> r \<le> q
      | _ \<Rightarrow> False)"

definition doc_inv :: "'f document \<Rightarrow> bool" where
  "doc_inv db = list_all tool_inv (tools db)"

text \<open>Every quantity of the document is at most \<open>MAX_SAFE_INTEGER\<close>.\<close>

definition safe_quantities :: "'f document \<Rightarrow> bool" where
  "safe_quantities db = list_all (\<lambda>t. ToNumber (t_quantity t) \<le> MAX_SAFE_INTEGER) (tools db)"

text \<open>A tool that satisfies the invariant with a quantity of at most
  \<open>MAX_SAFE_INTEGER\<close>.\<close>

definition safe_tool :: "'f tool \<Rightarrow> bool" where
  "safe_tool t = (tool_inv t \<and> ToNumber (t_quantity t) \<le> MAX_SAFE_INTEGER)"

text \<open>The tool id as the specification words it: the name in lower case, stripped to
  the characters of \<open>[a-z0-9-]\<close>.\<close>

definition spec_tool_id :: "(jsstring \<Rightarrow> jsstring) \<Rightarrow> jsstring \<Rightarrow> jsstring" where
  "spec_tool_id toLowerCase name = filter (\<lambda>c. isLowerAlnum c \<or> c = 45) (toLowerCase name)"

section \<open>Sample data\<close>

definition drill :: "string tool" where
  "drill = \<lparr>t_id = js ''drill'', t_name = Some (js ''Drill''), t_beforeImage = Some (js ''drill.jpg''),
            t_price = ''10'', t_quantity = Num 2, t_rented = Num 1, t_available = Num 1,
            t_description = js ''New tool added.'', t_specs = default_specs\<rparr>"

definition rental1 :: "string rental" where
  "rental1 = \<lparr>r_rentalId = js ''r1'', r_toolId = Some (js ''drill''), r_userId = Num 1,
              r_userName = js ''ann'', r_userEmail = js ''ann@example.com'', r_rentDays = Num 3,
              r_totalPrice = ''30'', r_rentalDate = js ''2024-01-01T00:00:00.000Z'',
              r_status = RENTED, r_returnDate = None, r_afterImage = None\<rparr>"

definition sample_db :: "string document" where
  "sample_db = \<lparr>admin = None, users = [], tools = [drill], rentals = [rental1], logs = []\<rparr>"

definition sample_file :: upload_file where
  "sample_file = \<lparr>f_path = js ''uploads/after/1_drill_return_7.jpg'',
                  f_originalname = js ''photo.jpg'', f_size = 100000,
                  f_filename = js ''1_drill_return_7.jpg''\<rparr>"

text \<open>An upload of 5 bytes.\<close>

definition small_file :: upload_file where
  "small_file = sample_file\<lparr>f_size := 5\<rparr>"

definition small_return :: return_request where
  "small_return = \<lparr>cq_toolId = Some (js ''drill''), cq_rentalId = Some (js ''r1''),
                   cq_userId = js ''1'', cq_file = Some small_file\<rparr>"

definition sample_return :: return_request where
  "sample_return = \<lparr>cq_toolId = Some (js ''drill''), cq_rentalId = Some (js ''r1''),
                    cq_userId = js ''1'', cq_file = Some sample_file\<rparr>"

text \<open>An environment with the draw of \<open>compareImages\<close> and the outcome of the save
  left open; the other draws are 1/2.\<close>

definition sample_env :: "double \<Rightarrow> bool \<Rightarrow> return_env" where
  "sample_env rnd ok =
     \<lparr>env_toLowerCase = toLowerCase_ascii,
      rnd_score1 = Dbl 1 (- 1), rnd_score2 = Dbl 1 (- 1), rnd_damage = Dbl 1 (- 1),
      rnd_damage_conf = Dbl 1 (- 1), rnd_similarity = rnd, rnd_damage_score = Dbl 1 (- 1),
      now_return = js ''2024-01-04T00:00:00.000Z'', now_log = js ''2024-01-04T00:00:00.001Z'',
      before_path = (\<lambda>name. js ''uploads/before/'' @ name), save_ok = ok\<rparr>"

text \<open>The draw 7/8 and the draw 1/2.\<close>

definition high :: double where
  "high = Dbl 7 (- 3)"

definition half :: double where
  "half = Dbl 1 (- 1)"

text \<open>A disk with the uploaded photo and the reference image, one with the uploaded
  photo only, and one where the reference image has 4 bytes and the uploaded photo 5.\<close>

definition sample_files :: disk where
  "sample_files = [js ''uploads/after/1_drill_return_7.jpg'' \<mapsto> 100000,
                   js ''uploads/before/drill.jpg'' \<mapsto> 100000]"

definition upload_only :: disk where
  "upload_only = [js ''uploads/after/1_drill_return_7.jpg'' \<mapsto> 100000]"

definition small_files :: disk where
  "small_files = [js ''uploads/after/1_drill_return_7.jpg'' \<mapsto> 5,
                  js ''uploads/before/drill.jpg'' \<mapsto> 4]"

text \<open>The document stored by the return of \<open>r1\<close>.\<close>

definition returned_db :: "string document" where
  "returned_db =
     fst (snd (return_check (sample_env high True) sample_return sample_db sample_files))"

definition sample_rent :: rent_request where
  "sample_rent = \<lparr>rq_toolId = Some (js ''drill''), rq_userId = js ''1'', rq_userName = js ''ann'',
                  rq_userEmail = js ''ann@example.com'', rq_rentDays = js ''3'',
                  rq_totalPrice = js ''0.01''\<rparr>"

text \<open>The sample document with both drills rented.\<close>

definition rented_out :: "string document" where
  "rented_out = sample_db\<lparr>tools := [drill\<lparr>t_rented := Num 2, t_available := Num 0\<rparr>]\<rparr>"

text \<open>The price of the samples is kept as the text of the request.\<close>

definition price_text :: "jsstring \<Rightarrow> string" where
  "price_text s = map char_of s"

definition empty_db :: "string document" where
  "empty_db = \<lparr>admin = None, users = [], tools = [], rentals = [], logs = []\<rparr>"

definition create_request :: "jsstring \<Rightarrow> jsstring \<Rightarrow> tool_request" where
  "create_request name quantity =
     \<lparr>tq_id = None, tq_name = Some name, tq_price = js ''10'', tq_quantity = quantity,
      tq_beforeImage = None, tq_description = None, tq_specs = None\<rparr>"

text \<open>The resolution of log 1 with a given action.\<close>

definition resolve_request :: "jsstring \<Rightarrow> action_request" where
  "resolve_request action = \<lparr>aq_logId = js ''1'', aq_action = action\<rparr>"

text \<open>A disk whose canonical file holds an earlier document.\<close>

definition old_disk :: filesystem where
  "old_disk = [''db.json'' \<mapsto> ''[1]'']"

text \<open>The draw \<open>1069604911500492 / 2^52\<close>, for which the score of a small file named
  \<open>ai.jpg\<close> times 100 is 79.5.\<close>

definition tie_draw :: double where
  "tie_draw = Dbl 1069604911500492 (- 52)"

lemmas sample_defs =
  sample_db_def drill_def rental1_def sample_rent_def default_specs_def sample_file_def
  sample_return_def sample_env_def sample_files_def upload_only_def small_files_def
  empty_db_def create_request_def rented_out_def high_def half_def small_file_def
  small_return_def

section \<open>Basic facts\<close>

lemma char_of_nat_bits:
  "char_of (n::nat) =
     Char (odd n) (odd (n div 2)) (odd (n div 4)) (odd (n div 8))
          (odd (n div 16)) (odd (n div 32)) (odd (n div 64)) (odd (n div 128))"
  by (simp add: char_of_def bit_iff_odd)

lemma findIndex_Some:
  "findIndex P xs = Some i \<Longrightarrow> i < length xs \<and> P (xs ! i)"
proof (induction xs arbitrary: i)
  case Nil
  then show ?case by simp
next
  case (Cons x xs)
  show ?case
  proof (cases "P x")
    case True
    with Cons.prems show ?thesis by simp
  next
    case False
    with Cons.prems obtain j where "findIndex P xs = Some j" and "i = Suc j"
      by auto
    with Cons.IH show ?thesis by simp
  qed
qed

lemma find_tool_Some:
  "find_tool ts toolId = Some tool \<Longrightarrow>
     \<exists>i. find_tool_index ts toolId = Some i \<and> i < length ts \<and> ts ! i = tool
         \<and> Some (t_id tool) = toolId"
  unfolding find_tool_def find_tool_index_def
  by (auto dest: findIndex_Some)

lemma find_tool_None: "find_tool ts toolId = None \<longleftrightarrow> find_tool_index ts toolId = None"
  by (simp add: find_tool_def)

lemma find_rental_index_Some:
  "find_rental_index rs rentalId = Some j \<Longrightarrow> j < length rs \<and> Some (r_rentalId (rs ! j)) = rentalId"
  unfolding find_rental_index_def by (auto dest: findIndex_Some)

lemma find_tool_index_Some:
  "find_tool_index ts toolId = Some i \<Longrightarrow> i < length ts \<and> Some (t_id (ts ! i)) = toolId"
  unfolding find_tool_index_def by (auto dest: findIndex_Some)

subsection \<open>Integers that are doubles\<close>

lemma bitlen_le: "n < 2 ^ k \<Longrightarrow> bitlen n \<le> k"
proof (induction k arbitrary: n)
  case 0
  then have "n \<le> 0" by simp
  then show ?case by (simp add: bitlen.simps)
next
  case (Suc k)
  show ?case
  proof (cases "n \<le> 0")
    case True
    then show ?thesis by (simp add: bitlen.simps)
  next
    case False
    from Suc.prems have "n div 2 < 2 ^ k" by simp
    then have "bitlen (n div 2) \<le> k" by (rule Suc.IH)
    with False show ?thesis by (simp add: bitlen.simps [of n])
  qed
qed

lemma round_shift_0: "round_shift m 0 = m"
  by (simp add: round_shift_def)

lemma round_int_exact:
  assumes "\<bar>n\<bar> < 2 ^ 53"
  shows "round_int n = n"
proof -
  from assms have "bitlen \<bar>n\<bar> \<le> 53" by (rule bitlen_le)
  then have "bitlen \<bar>n\<bar> - 53 = 0" by simp
  then show ?thesis by (simp add: round_int_def round_shift_0)
qed

lemma round_int_2_53: "round_int (2 ^ 53) = 2 ^ 53"
  by code_simp

lemma round_int_safe:
  assumes "0 \<le> n" and "n \<le> MAX_SAFE_INTEGER + 1"
  shows "round_int n = n"
proof (cases "n = 2 ^ 53")
  case True
  then show ?thesis by (simp only: round_int_2_53)
next
  case False
  with assms have "\<bar>n\<bar> < 2 ^ 53" by (simp add: MAX_SAFE_INTEGER_def)
  then show ?thesis by (rule round_int_exact)
qed

lemma to_number_safe:
  assumes "\<bar>n\<bar> < 2 ^ 53"
  shows "to_number n = Fin n"
proof -
  have "(2::int) ^ 53 \<le> 2 ^ 1024" by (rule power_increasing) simp_all
  with assms have "n < 2 ^ 1024" and "- (2 ^ 1024) < n" by linarith+
  then show ?thesis
    by (simp add: to_number_def round_int_exact [OF assms])
qed

subsection \<open>The value of a double\<close>

lemma dval_powr: "dval d = real_of_int (mant d) * 2 powr real_of_int (expo d)"
proof (cases "0 \<le> expo d")
  case True
  then have "2 powr real_of_int (expo d) = (2::real) ^ nat (expo d)"
    by (simp add: powr_realpow [symmetric])
  with True show ?thesis by (simp add: dval_def)
next
  case False
  then have "2 powr real_of_int (expo d) = 1 / (2::real) ^ nat (- expo d)"
    by (simp add: powr_realpow [symmetric] powr_minus_divide [symmetric])
  with False show ?thesis by (simp add: dval_def)
qed

lemma dval_align:
  assumes "e \<le> expo d"
  shows "dval d = real_of_int (align e d) * 2 powr real_of_int e"
proof -
  from assms have "(2::real) ^ nat (expo d - e) = 2 powr real_of_int (expo d - e)"
    by (simp add: powr_realpow [symmetric])
  then have "real_of_int (align e d) * 2 powr real_of_int e
               = real_of_int (mant d) * (2 powr real_of_int (expo d - e) * 2 powr real_of_int e)"
    by (simp add: align_def)
  also have "2 powr real_of_int (expo d - e) * 2 powr real_of_int e = 2 powr real_of_int (expo d)"
    by (simp add: powr_add [symmetric])
  finally show ?thesis by (simp add: dval_powr)
qed

lemma dless_correct: "dless a b \<longleftrightarrow> dval a < dval b"
proof -
  let ?e = "min (expo a) (expo b)"
  have a: "dval a = real_of_int (align ?e a) * 2 powr real_of_int ?e"
    by (rule dval_align) simp
  have b: "dval b = real_of_int (align ?e b) * 2 powr real_of_int ?e"
    by (rule dval_align) simp
  have "0 < (2::real) powr real_of_int ?e" by simp
  then have "dval a < dval b \<longleftrightarrow> real_of_int (align ?e a) < real_of_int (align ?e b)"
    unfolding a b by (rule mult_less_cancel_right_pos)
  then show ?thesis by (simp add: dless_def Let_def)
qed

lemma Math_round_correct: "Math_round d = \<lfloor>dval d + 1 / 2\<rfloor>"
proof (cases "0 \<le> expo d")
  case True
  have "\<lfloor>real_of_int (mant d * 2 ^ nat (expo d)) + 1 / 2\<rfloor> = mant d * 2 ^ nat (expo d)"
    by linarith
  with True show ?thesis by (simp add: Math_round_def dval_def)
next
  case False
  define k where "k = nat (- expo d)"
  have "real_of_int (mant d) / 2 ^ k + 1 / 2
          = real_of_int (2 * mant d + 2 ^ k) / real_of_int (2 ^ Suc k)"
    by (simp add: field_simps)
  then have "\<lfloor>real_of_int (mant d) / 2 ^ k + 1 / 2\<rfloor> = (2 * mant d + 2 ^ k) div 2 ^ Suc k"
    by (simp only: floor_divide_of_int_eq)
  with False show ?thesis by (simp add: Math_round_def dval_def k_def)
qed

subsection \<open>Parsed samples\<close>

lemma parseInt_1: "parseInt (js ''1'') = Fin 1"
  by (simp add: parseInt_def js_def isWhiteSpace_def isRadixDigit_def digitValue_def
      digitsValue_def to_number_safe)

lemma parseInt_2: "parseInt (js ''2'') = Fin 2"
  by (simp add: parseInt_def js_def isWhiteSpace_def isRadixDigit_def digitValue_def
      digitsValue_def to_number_safe)

lemma parseInt_3: "parseInt (js ''3'') = Fin 3"
  by (simp add: parseInt_def js_def isWhiteSpace_def isRadixDigit_def digitValue_def
      digitsValue_def to_number_safe)

text \<open>Beyond \<open>MAX_SAFE_INTEGER\<close> the integer read is rounded to the nearest double, and
  from \<open>2^1024\<close> on the result is an infinity, which is stored as \<open>null\<close>.\<close>

lemma to_number_beyond_safe: "to_number 9007199254740993 = Fin 9007199254740992"
  by code_simp

lemma parseInt_beyond_safe: "parseInt (js ''9007199254740993'') = Fin 9007199254740992"
  by (simp add: parseInt_def js_def isWhiteSpace_def isRadixDigit_def digitValue_def
      digitsValue_def to_number_beyond_safe)

lemma to_number_overflow: "toJSON (to_number (2 ^ 1024)) = Null"
  by code_simp

section \<open>Renting\<close>

text \<open>
  Claim C4. A rent request for a tool that exists and has \<open>available == 0\<close> is answered
  with the 400 reply \<open>Tool is unavailable.\<close>, and the stored document (tool counts and
  rentals) is the one read.
\<close>

theorem rent_out_of_stock:
  assumes "find_tool (tools db) (rq_toolId req) = Some tool"
    and "t_available tool = Num 0"
  shows "rent parseFloat uuid now fs_ok req db
           = (Json 400 False [Text ''Tool is unavailable.''] None, db)"
proof -
  from assms(1) obtain i where "find_tool_index (tools db) (rq_toolId req) = Some i"
    and "tools db ! i = tool"
    by (auto dest: find_tool_Some)
  with assms(2) show ?thesis
    by (simp add: rent_def)
qed

lemma rented_out_tool:
  "find_tool (tools rented_out) (rq_toolId sample_rent)
     = Some (drill\<lparr>t_rented := Num 2, t_available := Num 0\<rparr>)"
  by (simp add: find_tool_def find_tool_index_def sample_defs js_def)

theorem rent_out_of_stock_witness:
  "find_tool (tools rented_out) (rq_toolId sample_rent)
     = Some (drill\<lparr>t_rented := Num 2, t_available := Num 0\<rparr>)
   \<and> rent price_text (js ''u1'') (js ''2024-01-02T00:00:00.000Z'') True sample_rent rented_out
      = (Json 400 False [Text ''Tool is unavailable.''] None, rented_out)"
proof -
  have "t_available (drill\<lparr>t_rented := Num 2, t_available := Num 0\<rparr>) = Num 0"
    by simp
  from rent_out_of_stock [OF rented_out_tool this] rented_out_tool show ?thesis
    by simp
qed

text \<open>
  Claim C9. A rent request whose \<open>toolId\<close> matches no tool is answered with the same 400
  reply \<open>Tool is unavailable.\<close> as a request for a tool that is out of stock (the rent
  path has no reply of its own for an unknown tool), and the stored document is the one
  read.
\<close>

theorem rent_unknown_tool:
  assumes "find_tool (tools db) (rq_toolId req) = None"
    and "find_tool (tools db') (rq_toolId req') = Some tool'"
    and "ToNumber (t_available tool') \<le> 0"
  shows "rent parseFloat uuid now fs_ok req db
           = (Json 400 False [Text ''Tool is unavailable.''] None, db)
       \<and> fst (rent parseFloat uuid now fs_ok req db)
           = fst (rent parseFloat uuid' now' fs_ok' req' db')"
proof -
  from assms(1) have none: "find_tool_index (tools db) (rq_toolId req) = None"
    by (simp add: find_tool_None)
  from assms(2) obtain i where "find_tool_index (tools db') (rq_toolId req') = Some i"
    and "tools db' ! i = tool'"
    by (auto dest: find_tool_Some)
  with assms(3) have
    "fst (rent parseFloat uuid' now' fs_ok' req' db')
       = Json 400 False [Text ''Tool is unavailable.''] None"
    by (simp add: rent_def)
  with none show ?thesis
    by (simp add: rent_def)
qed

theorem rent_unknown_tool_witness:
  "find_tool (tools sample_db) (rq_toolId (sample_rent\<lparr>rq_toolId := Some (js ''saw'')\<rparr>)) = None
   \<and> rent price_text (js ''u1'') (js ''2024-01-02T00:00:00.000Z'') True
        (sample_rent\<lparr>rq_toolId := Some (js ''saw'')\<rparr>) sample_db
      = (Json 400 False [Text ''Tool is unavailable.''] None, sample_db)
   \<and> fst (rent price_text (js ''u1'') (js ''2024-01-02T00:00:00.000Z'') True
        (sample_rent\<lparr>rq_toolId := Some (js ''saw'')\<rparr>) sample_db)
      = fst (rent price_text (js ''u2'') (js ''2024-01-03T00:00:00.000Z'') True sample_rent
          rented_out)"
proof -
  have unknown:
    "find_tool (tools sample_db) (rq_toolId (sample_rent\<lparr>rq_toolId := Some (js ''saw'')\<rparr>)) = None"
    by (simp add: find_tool_def find_tool_index_def sample_defs js_def)
  have "ToNumber (t_available (drill\<lparr>t_rented := Num 2, t_available := Num 0\<rparr>)) \<le> 0"
    by simp
  from rent_unknown_tool [OF unknown rented_out_tool this, of price_text "js ''u1''"
      "js ''2024-01-02T00:00:00.000Z''" True "js ''u2''" "js ''2024-01-03T00:00:00.000Z''" True]
    unknown
  show ?thesis
    by blast
qed

text \<open>
  Claim C10. In a successful rent the rental of the reply, which is the rental appended
  to the stored rentals when the save succeeds, has \<open>totalPrice\<close> equal to
  \<open>parseFloat\<close> of the body's \<open>totalPrice\<close> and \<open>rentDays\<close> equal to \<open>parseInt\<close> of the
  body's \<open>rentDays\<close>: whatever the two fields hold and whatever the price of the tool,
  the request succeeds as soon as the tool is available.
\<close>

theorem rent_keeps_client_values:
  assumes "find_tool (tools db) (rq_toolId req) = Some tool"
    and "0 < ToNumber (t_available tool)"
  shows "\<exists>rental.
           fst (rent parseFloat uuid now fs_ok req db)
             = Json 200 True [Text ''Tool rented successfully.''] (Some rental)
         \<and> r_totalPrice rental = parseFloat (rq_totalPrice req)
         \<and> r_rentDays rental = toJSON (parseInt (rq_rentDays req))
         \<and> rentals (snd (rent parseFloat uuid now True req db)) = rentals db @ [rental]"
proof -
  from assms(1) obtain i where "find_tool_index (tools db) (rq_toolId req) = Some i"
    and "tools db ! i = tool"
    by (auto dest: find_tool_Some)
  with assms(2) show ?thesis
    by (simp add: rent_def Let_def writeDB_def)
qed

theorem rent_keeps_client_values_witness:
  "find_tool (tools sample_db) (rq_toolId sample_rent) = Some drill
   \<and> 0 < ToNumber (t_available drill)
   \<and> t_price drill = ''10''
   \<and> (\<exists>rental.
         fst (rent price_text (js ''u1'') (js ''2024-01-02T00:00:00.000Z'') True sample_rent sample_db)
           = Json 200 True [Text ''Tool rented successfully.''] (Some rental)
       \<and> r_totalPrice rental = ''0.01''
       \<and> r_rentDays rental = Num 3
       \<and> rentals (snd (rent price_text (js ''u1'') (js ''2024-01-02T00:00:00.000Z'') True
                          sample_rent sample_db))
           = rentals sample_db @ [rental])"
proof -
  have found: "find_tool (tools sample_db) (rq_toolId sample_rent) = Some drill"
    by (simp add: find_tool_def find_tool_index_def sample_defs js_def)
  have avail: "0 < ToNumber (t_available drill)"
    by (simp add: drill_def)
  have days: "toJSON (parseInt (rq_rentDays sample_rent)) = Num 3"
    by (simp add: sample_rent_def parseInt_3)
  have price: "price_text (rq_totalPrice sample_rent) = ''0.01''"
    by (simp add: sample_rent_def price_text_def js_def char_of_nat_bits)
  from rent_keeps_client_values [OF found avail, of price_text "js ''u1''"
      "js ''2024-01-02T00:00:00.000Z''" True]
  show ?thesis
    unfolding days price using found avail by (simp add: drill_def)
qed

section \<open>Creating a tool\<close>

lemma newToolId_length: "length (newToolId toLowerCase name) = length (toLowerCase name)"
  by (simp add: newToolId_def)

lemma newToolId_nth:
  "k < length (toLowerCase name) \<Longrightarrow>
     newToolId toLowerCase name ! k =
       (if isLowerAlnum (toLowerCase name ! k) then toLowerCase name ! k else 45)"
  by (simp add: newToolId_def)

text \<open>Where \<open>toLowerCase\<close> turns the capital I with dot above into an i and a combining
  dot, the id is longer than the name.\<close>

lemma newToolId_dotted_I:
  assumes "toLowerCase [304] = [105, 775]"
  shows "newToolId toLowerCase [304] = [105, 45]"
  using assms by (simp add: newToolId_def isLowerAlnum_def)

lemma newToolId_Power_Drill: "newToolId toLowerCase_ascii (js ''Power Drill'') = js ''power-drill''"
  by (simp add: newToolId_def toLowerCase_ascii_def isLowerAlnum_def js_def)

lemma spec_tool_id_Power_Drill:
  "spec_tool_id toLowerCase_ascii (js ''Power Drill'') = js ''powerdrill''"
  by (simp add: spec_tool_id_def toLowerCase_ascii_def isLowerAlnum_def js_def)

text \<open>
  Claim C6, as stated, fails where the name has a character outside \<open>[a-z0-9-]\<close>: the
  tool created for the name \<open>Power Drill\<close> has the id \<open>power-drill\<close>, while stripping the
  lower-case name to the class gives \<open>powerdrill\<close>.
\<close>

theorem create_tool_id_counterexample:
  "map_option t_id
     (payload (fst (admin_tools toLowerCase_ascii price_text True
                      (create_request (js ''Power Drill'') (js ''2'')) empty_db)))
     \<noteq> Some (spec_tool_id toLowerCase_ascii (js ''Power Drill''))"
  by (simp add: admin_tools_def find_tool_index_def create_request_def empty_db_def writeDB_def
      Let_def newToolId_Power_Drill spec_tool_id_Power_Drill) (simp add: js_def)

text \<open>
  Claim C6, amended. On the create path (the \<open>id\<close> of the request matches no tool) the
  id of the new tool is \<open>name.toLowerCase()\<close> with every code unit outside \<open>[a-z0-9]\<close>
  replaced by a hyphen, so it has the length of the lower-case name. The request is
  answered with the 400 reply \<open>Tool name already exists.\<close>, and nothing is stored, when a
  tool has that id; otherwise the new tool is appended with \<open>rented\<close> 0 and with
  \<open>quantity\<close> and \<open>available\<close> both \<open>parseInt\<close> of the body's \<open>quantity\<close>. For the name
  \<open>Drill\<close> and quantity 2 the id is \<open>drill\<close> and \<open>available\<close> is 2.
\<close>

theorem create_tool:
  assumes "find_tool (tools db) (tq_id req) = None"
    and "tq_name req = Some name"
  shows "length (newToolId toLowerCase name) = length (toLowerCase name)
     \<and> (\<forall>k < length (toLowerCase name). newToolId toLowerCase name ! k =
           (if isLowerAlnum (toLowerCase name ! k) then toLowerCase name ! k else 45))
     \<and> ((\<exists>t \<in> set (tools db). t_id t = newToolId toLowerCase name) \<longrightarrow>
          admin_tools toLowerCase parseFloat fs_ok req db
            = (Json 400 False [Text ''Tool name already exists.''] None, db))
     \<and> ((\<forall>t \<in> set (tools db). t_id t \<noteq> newToolId toLowerCase name) \<longrightarrow>
          (\<exists>tool. admin_tools toLowerCase parseFloat True req db
                     = (Json 200 True [Text ''New tool added successfully.''] (Some tool),
                        db\<lparr>tools := tools db @ [tool]\<rparr>)
                 \<and> fst (admin_tools toLowerCase parseFloat fs_ok req db)
                     = Json 200 True [Text ''New tool added successfully.''] (Some tool)
                 \<and> t_id tool = newToolId toLowerCase name
                 \<and> t_rented tool = Num 0
                 \<and> t_quantity tool = toJSON (parseInt (tq_quantity req))
                 \<and> t_available tool = t_quantity tool))"
proof -
  from assms(1) have none: "find_tool_index (tools db) (tq_id req) = None"
    by (simp add: find_tool_def)
  have dup: "admin_tools toLowerCase parseFloat fs_ok req db
               = (Json 400 False [Text ''Tool name already exists.''] None, db)"
    if "\<exists>t \<in> set (tools db). t_id t = newToolId toLowerCase name"
    using that none assms(2) by (simp add: admin_tools_def)
  have fresh: "\<exists>tool. admin_tools toLowerCase parseFloat True req db
                     = (Json 200 True [Text ''New tool added successfully.''] (Some tool),
                        db\<lparr>tools := tools db @ [tool]\<rparr>)
                 \<and> fst (admin_tools toLowerCase parseFloat fs_ok req db)
                     = Json 200 True [Text ''New tool added successfully.''] (Some tool)
                 \<and> t_id tool = newToolId toLowerCase name
                 \<and> t_rented tool = Num 0
                 \<and> t_quantity tool = toJSON (parseInt (tq_quantity req))
                 \<and> t_available tool = t_quantity tool"
    if "\<forall>t \<in> set (tools db). t_id t \<noteq> newToolId toLowerCase name"
    using that none assms(2) by (simp add: admin_tools_def Let_def writeDB_def)
  from dup fresh show ?thesis
    by (simp add: newToolId_length newToolId_nth)
qed

lemma newToolId_Drill: "newToolId toLowerCase_ascii (js ''Drill'') = js ''drill''"
  by (simp add: newToolId_def toLowerCase_ascii_def isLowerAlnum_def js_def)

lemma newToolId_DRILL: "newToolId toLowerCase_ascii (js ''DRILL'') = js ''drill''"
  by (simp add: newToolId_def toLowerCase_ascii_def isLowerAlnum_def js_def)

theorem create_tool_witness:
  "find_tool (tools empty_db) (tq_id (create_request (js ''Drill'') (js ''2''))) = None
   \<and> tq_name (create_request (js ''Drill'') (js ''2'')) = Some (js ''Drill'')
   \<and> tools empty_db = []
   \<and> (\<exists>tool. admin_tools toLowerCase_ascii price_text True
                 (create_request (js ''Drill'') (js ''2'')) empty_db
                = (Json 200 True [Text ''New tool added successfully.''] (Some tool),
                   empty_db\<lparr>tools := [tool]\<rparr>)
            \<and> t_id tool = js ''drill'' \<and> t_rented tool = Num 0
            \<and> t_quantity tool = Num 2 \<and> t_available tool = Num 2)
   \<and> find_tool (tools sample_db) (tq_id (create_request (js ''DRILL'') (js ''5''))) = None
   \<and> (\<exists>t \<in> set (tools sample_db). t_id t = js ''drill'')
   \<and> admin_tools toLowerCase_ascii price_text True (create_request (js ''DRILL'') (js ''5''))
        sample_db
        = (Json 400 False [Text ''Tool name already exists.''] None, sample_db)"
proof -
  have none1: "find_tool (tools empty_db) (tq_id (create_request (js ''Drill'') (js ''2''))) = None"
    by (simp add: find_tool_def find_tool_index_def sample_defs)
  have name1: "tq_name (create_request (js ''Drill'') (js ''2'')) = Some (js ''Drill'')"
    by (simp add: create_request_def)
  have fresh: "\<forall>t \<in> set (tools empty_db). t_id t \<noteq> js ''drill''"
    by (simp add: empty_db_def)
  have qty: "toJSON (parseInt (tq_quantity (create_request (js ''Drill'') (js ''2'')))) = Num 2"
    by (simp add: create_request_def parseInt_2)
  have tools1: "tools empty_db @ [tool] = [tool]" for tool :: "string tool"
    by (simp add: empty_db_def)
  have none2: "find_tool (tools sample_db) (tq_id (create_request (js ''DRILL'') (js ''5''))) = None"
    by (simp add: find_tool_def find_tool_index_def sample_defs)
  have name2: "tq_name (create_request (js ''DRILL'') (js ''5'')) = Some (js ''DRILL'')"
    by (simp add: create_request_def)
  have dup: "\<exists>t \<in> set (tools sample_db). t_id t = js ''drill''"
    by (simp add: sample_db_def drill_def)
  from create_tool [OF none1 name1, of toLowerCase_ascii price_text True] fresh
  have part1: "\<exists>tool. admin_tools toLowerCase_ascii price_text True
                 (create_request (js ''Drill'') (js ''2'')) empty_db
                = (Json 200 True [Text ''New tool added successfully.''] (Some tool),
                   empty_db\<lparr>tools := [tool]\<rparr>)
            \<and> t_id tool = js ''drill'' \<and> t_rented tool = Num 0
            \<and> t_quantity tool = Num 2 \<and> t_available tool = Num 2"
    unfolding newToolId_Drill qty tools1 by auto
  from create_tool [OF none2 name2, of toLowerCase_ascii price_text True] dup
  have part2: "admin_tools toLowerCase_ascii price_text True
                 (create_request (js ''DRILL'') (js ''5'')) sample_db
        = (Json 400 False [Text ''Tool name already exists.''] None, sample_db)"
    unfolding newToolId_DRILL by blast
  have "tools empty_db = []"
    by (simp add: empty_db_def)
  with none1 name1 part1 none2 dup part2 show ?thesis
    by blast
qed

section \<open>The authenticity scorer\<close>

text \<open>The arithmetic of non-negative doubles gives non-negative doubles.\<close>

lemma round_shift_nonneg: "0 \<le> m \<Longrightarrow> 0 \<le> round_shift m s"
  by (simp add: round_shift_def Let_def pos_imp_zdiv_nonneg_iff)

lemma normalize_nonneg: "0 \<le> m \<Longrightarrow> 0 \<le> mant (normalize_double m e)"
  by (simp add: normalize_double_def Let_def round_shift_nonneg)

lemma dadd_nonneg: "0 \<le> mant a \<Longrightarrow> 0 \<le> mant b \<Longrightarrow> 0 \<le> mant (dadd a b)"
  by (simp add: dadd_def Let_def align_def normalize_nonneg)

lemma dmul_nonneg: "0 \<le> mant a \<Longrightarrow> 0 \<le> mant b \<Longrightarrow> 0 \<le> mant (dmul a b)"
  by (simp add: dmul_def normalize_nonneg)

lemma literal_nonneg: "0 < p \<Longrightarrow> 0 < q \<Longrightarrow> 0 \<le> mant (literal p q)"
  by (simp add: literal_def ddiv_def Let_def normalize_nonneg pos_imp_zdiv_nonneg_iff)

lemma Math_round_nonneg: "0 \<le> mant d \<Longrightarrow> 0 \<le> Math_round d"
  by (simp add: Math_round_def pos_imp_zdiv_nonneg_iff)

lemma aiScore_nonneg:
  assumes "0 \<le> mant rnd1" and "0 \<le> mant rnd2"
  shows "0 \<le> mant (aiScore toLowerCase fileSize fileName rnd1 rnd2)"
  using assms by (simp add: aiScore_def Let_def dadd_nonneg dmul_nonneg literal_nonneg)

text \<open>
  Claim C7. For every path, name and size of the file and all draws of \<open>Math.random()\<close>,
  \<open>is_ai_generated\<close> holds exactly when the score exceeds the double 0.7, \<open>confidence\<close> is
  the double product of the score and 100, rounded to the nearest integer (a half going
  up) and capped at 98, so it lies between 0 and 98, and \<open>allow_upload\<close> is false exactly
  when \<open>is_ai_generated\<close> holds and \<open>confidence\<close> is at least 80.
\<close>

theorem detectAIImage_judgment:
  assumes "is_draw rnd1" and "is_draw rnd2"
  shows
    "is_ai_generated (detectAIImage toLowerCase rnd1 rnd2 rnd3 rnd4 filePath fileName fileSize)
       = (dval (literal 7 10) < dval (aiScore toLowerCase fileSize fileName rnd1 rnd2))
     \<and> confidence (detectAIImage toLowerCase rnd1 rnd2 rnd3 rnd4 filePath fileName fileSize)
       = min 98 \<lfloor>dval (dmul (aiScore toLowerCase fileSize fileName rnd1 rnd2) (Dbl 100 0)) + 1 / 2\<rfloor>
     \<and> 0 \<le> confidence (detectAIImage toLowerCase rnd1 rnd2 rnd3 rnd4 filePath fileName fileSize)
     \<and> confidence (detectAIImage toLowerCase rnd1 rnd2 rnd3 rnd4 filePath fileName fileSize) \<le> 98
     \<and> (\<not> allow_upload (detectAIImage toLowerCase rnd1 rnd2 rnd3 rnd4 filePath fileName fileSize))
       = (is_ai_generated (detectAIImage toLowerCase rnd1 rnd2 rnd3 rnd4 filePath fileName fileSize)
          \<and> 80 \<le> confidence
                  (detectAIImage toLowerCase rnd1 rnd2 rnd3 rnd4 filePath fileName fileSize))"
proof -
  let ?total = "aiScore toLowerCase fileSize fileName rnd1 rnd2"
  from assms have "0 \<le> mant rnd1" and "0 \<le> mant rnd2"
    by (simp_all add: is_draw_def)
  then have "0 \<le> mant ?total"
    by (rule aiScore_nonneg)
  then have "0 \<le> mant (dmul ?total (Dbl 100 0))"
    by (simp add: dmul_nonneg)
  then have "0 \<le> Math_round (dmul ?total (Dbl 100 0))"
    by (rule Math_round_nonneg)
  then show ?thesis
    by (simp add: detectAIImage_def Let_def not_less dless_correct
        Math_round_correct [symmetric])
qed

text \<open>The threshold 0.7 as a double, and the two sample scores: for the draw
  \<open>1069604911500492 / 2^52\<close> the product with 100 is 79.5, which rounds to 80.\<close>

lemma threshold_value: "dval (literal 7 10) = 6305039478318694 / 2 ^ 53"
proof -
  have "literal 7 10 = Dbl 6305039478318694 (- 53)"
    by code_simp
  then show ?thesis by (simp add: dval_def)
qed

lemma tie_draw_is_draw: "is_draw tie_draw" and zero_is_draw: "is_draw (Dbl 0 0)"
  and eighth_is_draw: "is_draw (Dbl 1 (- 3))"
  by (simp_all add: is_draw_def tie_draw_def dless_def align_def)

lemma ai_jpg_keywords:
  "filter (includes_str (toLowerCase_ascii (js ''ai.jpg''))) aiKeywords = [js ''ai'']"
  by (simp add: aiKeywords_def toLowerCase_ascii_def js_def)

lemma ai_jpg_ext: "toLowerCase_ascii (extname (js ''ai.jpg'')) = js ''.jpg''"
  by (simp add: extname_def toLowerCase_ascii_def js_def)

lemma ai_jpg_score:
  "aiScore toLowerCase_ascii 1000 (js ''ai.jpg'') rnd1 rnd2
     = dadd (dadd (dadd (dadd (Dbl 0 0) (literal 3 10)) (literal 4 10)) (dmul rnd1 (literal 4 10)))
         (dmul rnd2 (literal 2 10))"
proof -
  have "js ''.jpg'' \<noteq> js ''.png''" and "js ''.jpg'' \<noteq> js ''.webp''"
    by (simp_all add: js_def)
  then show ?thesis
    by (simp add: aiScore_def Let_def ai_jpg_keywords ai_jpg_ext)
qed

lemma tie_product:
  "dmul (aiScore toLowerCase_ascii 1000 (js ''ai.jpg'') tie_draw (Dbl 0 0)) (Dbl 100 0)
     = Dbl 5594315162124288 (- 46)"
  unfolding ai_jpg_score by code_simp

lemma tie_above:
  "dless (literal 7 10) (aiScore toLowerCase_ascii 1000 (js ''ai.jpg'') tie_draw (Dbl 0 0))"
  unfolding ai_jpg_score by code_simp

lemma eighth_product:
  "Math_round (dmul (aiScore toLowerCase_ascii 1000 (js ''ai.jpg'') (Dbl 1 (- 3)) (Dbl 0 0))
                 (Dbl 100 0)) = 75"
  unfolding ai_jpg_score by code_simp

lemma eighth_above:
  "dless (literal 7 10) (aiScore toLowerCase_ascii 1000 (js ''ai.jpg'') (Dbl 1 (- 3)) (Dbl 0 0))"
  unfolding ai_jpg_score by code_simp

lemma eighth_judgment:
  "is_ai_generated (detectAIImage toLowerCase_ascii (Dbl 1 (- 3)) (Dbl 0 0) half half
                      (js ''up/a.jpg'') (js ''ai.jpg'') 1000)
   \<and> confidence (detectAIImage toLowerCase_ascii (Dbl 1 (- 3)) (Dbl 0 0) half half
                    (js ''up/a.jpg'') (js ''ai.jpg'') 1000) = 75
   \<and> allow_upload (detectAIImage toLowerCase_ascii (Dbl 1 (- 3)) (Dbl 0 0) half half
                      (js ''up/a.jpg'') (js ''ai.jpg'') 1000)"
  by (simp add: detectAIImage_def Let_def eighth_product eighth_above)

theorem detectAIImage_judgment_witness:
  "is_draw tie_draw \<and> is_draw (Dbl 0 0) \<and> is_draw (Dbl 1 (- 3))
   \<and> dval (dmul (aiScore toLowerCase_ascii 1000 (js ''ai.jpg'') tie_draw (Dbl 0 0)) (Dbl 100 0))
       = 159 / 2
   \<and> dval (literal 7 10)
       < dval (aiScore toLowerCase_ascii 1000 (js ''ai.jpg'') tie_draw (Dbl 0 0))
   \<and> confidence (detectAIImage toLowerCase_ascii tie_draw (Dbl 0 0) half half (js ''up/a.jpg'')
                    (js ''ai.jpg'') 1000) = 80
   \<and> \<not> allow_upload (detectAIImage toLowerCase_ascii tie_draw (Dbl 0 0) half half
                         (js ''up/a.jpg'') (js ''ai.jpg'') 1000)
   \<and> is_ai_generated (detectAIImage toLowerCase_ascii (Dbl 1 (- 3)) (Dbl 0 0) half half
                         (js ''up/a.jpg'') (js ''ai.jpg'') 1000)
   \<and> confidence (detectAIImage toLowerCase_ascii (Dbl 1 (- 3)) (Dbl 0 0) half half
                    (js ''up/a.jpg'') (js ''ai.jpg'') 1000) = 75
   \<and> allow_upload (detectAIImage toLowerCase_ascii (Dbl 1 (- 3)) (Dbl 0 0) half half
                      (js ''up/a.jpg'') (js ''ai.jpg'') 1000)"
proof -
  note tie = detectAIImage_judgment [OF tie_draw_is_draw zero_is_draw, of toLowerCase_ascii
      half half "js ''up/a.jpg''" "js ''ai.jpg''" 1000]
  have product:
    "dval (dmul (aiScore toLowerCase_ascii 1000 (js ''ai.jpg'') tie_draw (Dbl 0 0)) (Dbl 100 0))
       = 159 / 2"
    by (simp add: tie_product dval_def)
  from tie have "confidence (detectAIImage toLowerCase_ascii tie_draw (Dbl 0 0) half half
                    (js ''up/a.jpg'') (js ''ai.jpg'') 1000) = min 98 \<lfloor>(159 / 2 :: real) + 1 / 2\<rfloor>"
    unfolding product by (rule conjunct1 [OF conjunct2])
  then have conf: "confidence (detectAIImage toLowerCase_ascii tie_draw (Dbl 0 0) half half
                    (js ''up/a.jpg'') (js ''ai.jpg'') 1000) = 80"
    by simp
  have above: "dval (literal 7 10)
       < dval (aiScore toLowerCase_ascii 1000 (js ''ai.jpg'') tie_draw (Dbl 0 0))"
    using tie_above by (simp add: dless_correct)
  from tie conf above have blocked:
    "\<not> allow_upload (detectAIImage toLowerCase_ascii tie_draw (Dbl 0 0) half half
                         (js ''up/a.jpg'') (js ''ai.jpg'') 1000)"
    by simp
  from tie_draw_is_draw zero_is_draw eighth_is_draw product above conf blocked eighth_judgment
  show ?thesis
    by blast
qed

section \<open>The return pipeline\<close>

lemma return_check_reaches_commit:
  assumes "cq_file req = Some file"
    and "find_tool_index (tools db) (cq_toolId req) = Some i"
    and "allow_upload (upload_judgment env file)"
    and "similarity_step env files (tools db ! i) file = Some c"
  shows "return_check env req db files
           = commit_return env req file i (upload_judgment env file) c db files"
  using assms by (simp add: return_check_def Let_def)

lemma commit_return_reply:
  assumes "find_rental_index (rentals db) (cq_rentalId req) = Some j"
  shows "fst (commit_return env req file i ai c db files)
           = Json 200 True
               (if confidence ai > 70
                then [Units check_mark, Text '' Tool returned successfully. Image requires review.'']
                else [Units check_mark,
                      Text '' Tool returned successfully and is available for rent.'']) None"
    and "snd (snd (commit_return env req file i ai c db files)) = files"
  using assms by (simp_all add: commit_return_def Let_def split: prod.splits)

lemma commit_return_failed_save:
  assumes "find_rental_index (rentals db) (cq_rentalId req) = Some j"
    and "\<not> save_ok env"
  shows "fst (snd (commit_return env req file i ai c db files)) = db"
  using assms by (simp add: commit_return_def Let_def writeDB_def)

lemma commit_return_stored:
  assumes "find_rental_index (rentals db) (cq_rentalId req) = Some j"
    and "save_ok env"
  shows "tools (fst (snd (commit_return env req file i ai c db files)))
           = (tools db)[i := (tools db ! i)
                \<lparr>t_rented := Num (max 0 (round_int (ToNumber (t_rented (tools db ! i)) - 1))),
                 t_available := Num (round_int (ToNumber (t_available (tools db ! i)) + 1))\<rparr>]"
    and "rentals (fst (snd (commit_return env req file i ai c db files)))
           = (rentals db)[j := (rentals db ! j)
                \<lparr>r_status := RETURNED, r_returnDate := Some (now_return env),
                 r_afterImage := Some (f_filename file)\<rparr>]"
    and "butlast (logs (fst (snd (commit_return env req file i ai c db files)))) = logs db"
    and "l_imageSimilarity (last (logs (fst (snd (commit_return env req file i ai c db files)))))
           = score c"
    and "l_action (last (logs (fst (snd (commit_return env req file i ai c db files)))))
           = AUTO_RESOLVED"
  using assms by (simp_all add: commit_return_def Let_def writeDB_def)

lemma similarity_step_mismatch:
  assumes "t_beforeImage tool = Some img" and "img \<noteq> []"
    and "files (before_path env img) \<noteq> None"
    and "\<not> similar (compareImages files (rnd_similarity env) (before_path env img) (f_path file))
         \<or> score (compareImages files (rnd_similarity env) (before_path env img) (f_path file)) < 60"
  shows "similarity_step env files tool file = None"
  using assms by (auto simp add: similarity_step_def Let_def)

lemma similarity_step_passed:
  assumes "t_beforeImage tool = Some img" and "img \<noteq> []"
    and "files (before_path env img) \<noteq> None"
    and "similar (compareImages files (rnd_similarity env) (before_path env img) (f_path file))"
    and "60 \<le> score (compareImages files (rnd_similarity env) (before_path env img) (f_path file))"
  shows "similarity_step env files tool file
           = Some (compareImages files (rnd_similarity env) (before_path env img) (f_path file))"
  using assms by (auto simp add: similarity_step_def Let_def)

lemma similarity_step_skipped:
  assumes "t_beforeImage tool = None \<or> t_beforeImage tool = Some []
           \<or> (\<exists>img. t_beforeImage tool = Some img \<and> files (before_path env img) = None)"
  shows "similarity_step env files tool file = Some \<lparr>similar = False, score = 0\<rparr>"
  using assms by (auto simp add: similarity_step_def Let_def)

subsection \<open>The sample return\<close>

lemma sample_upload: "cq_file sample_return = Some sample_file"
  by (simp add: sample_return_def)

lemma small_upload: "cq_file small_return = Some small_file"
  by (simp add: small_return_def)

lemma photo_jpg_keywords:
  "filter (includes_str (toLowerCase_ascii (js ''photo.jpg''))) aiKeywords = []"
  by (simp add: aiKeywords_def toLowerCase_ascii_def js_def)

lemma photo_jpg_ext: "toLowerCase_ascii (extname (js ''photo.jpg'')) = js ''.jpg''"
  by (simp add: extname_def toLowerCase_ascii_def js_def)

lemma photo_score:
  "aiScore toLowerCase_ascii 100000 (js ''photo.jpg'') rnd1 rnd2
     = dadd (dadd (Dbl 0 0) (dmul rnd1 (literal 4 10))) (dmul rnd2 (literal 2 10))"
  "aiScore toLowerCase_ascii 5 (js ''photo.jpg'') rnd1 rnd2
     = dadd (dadd (dadd (Dbl 0 0) (literal 3 10)) (dmul rnd1 (literal 4 10)))
         (dmul rnd2 (literal 2 10))"
proof -
  have "js ''.jpg'' \<noteq> js ''.png''" and "js ''.jpg'' \<noteq> js ''.webp''"
    by (simp_all add: js_def)
  then show
    "aiScore toLowerCase_ascii 100000 (js ''photo.jpg'') rnd1 rnd2
       = dadd (dadd (Dbl 0 0) (dmul rnd1 (literal 4 10))) (dmul rnd2 (literal 2 10))"
    "aiScore toLowerCase_ascii 5 (js ''photo.jpg'') rnd1 rnd2
       = dadd (dadd (dadd (Dbl 0 0) (literal 3 10)) (dmul rnd1 (literal 4 10)))
           (dmul rnd2 (literal 2 10))"
    by (simp_all add: aiScore_def Let_def photo_jpg_keywords photo_jpg_ext)
qed

lemma photo_confidence:
  "Math_round (dmul (aiScore toLowerCase_ascii 100000 (js ''photo.jpg'') (Dbl 1 (- 1)) (Dbl 1 (- 1)))
                 (Dbl 100 0)) = 30"
  "Math_round (dmul (aiScore toLowerCase_ascii 5 (js ''photo.jpg'') (Dbl 1 (- 1)) (Dbl 1 (- 1)))
                 (Dbl 100 0)) = 60"
  unfolding photo_score by code_simp+

lemma photo_below:
  "\<not> dless (literal 7 10) (aiScore toLowerCase_ascii 100000 (js ''photo.jpg'') (Dbl 1 (- 1)) (Dbl 1 (- 1)))"
  "\<not> dless (literal 7 10) (aiScore toLowerCase_ascii 5 (js ''photo.jpg'') (Dbl 1 (- 1)) (Dbl 1 (- 1)))"
  unfolding photo_score by code_simp+

lemma half_draws:
  "\<not> dless (Dbl 1 (- 1)) (literal 2 10)"
  "Math_floor (dmul (Dbl 1 (- 1)) (Dbl 20 0)) = 10"
  "Math_floor (dmul (Dbl 1 (- 1)) (Dbl 30 0)) = 15"
  by code_simp+

lemma sample_judgment:
  "upload_judgment (sample_env rnd ok) sample_file
     = \<lparr>is_ai_generated = False, confidence = 30, allow_upload = True,
        damage_detected = False, damage_confidence = 10, warnings = []\<rparr>"
  by (simp add: upload_judgment_def detectAIImage_def sample_env_def sample_file_def Let_def
      photo_confidence photo_below half_draws)

lemma small_judgment:
  "upload_judgment (sample_env rnd ok) small_file
     = \<lparr>is_ai_generated = False, confidence = 60, allow_upload = True,
        damage_detected = False, damage_confidence = 10, warnings = []\<rparr>"
  by (simp add: upload_judgment_def detectAIImage_def sample_env_def sample_file_def
      small_file_def Let_def photo_confidence photo_below half_draws)

lemma sample_allowed: "allow_upload (upload_judgment (sample_env rnd ok) sample_file)"
  by (simp add: sample_judgment)

lemma small_allowed: "allow_upload (upload_judgment (sample_env rnd ok) small_file)"
  by (simp add: small_judgment)

lemma sample_env_sel:
  "before_path (sample_env rnd ok) (js ''drill.jpg'') = js ''uploads/before/drill.jpg''"
  "rnd_similarity (sample_env rnd ok) = rnd"
  "save_ok (sample_env rnd ok) = ok"
  by (simp_all add: sample_env_def js_def)

lemma drill_image: "js ''drill.jpg'' \<noteq> []"
  by (simp add: js_def)

lemma sample_reference: "sample_files (js ''uploads/before/drill.jpg'') = Some 100000"
  by (simp add: sample_files_def js_def)

lemma sample_upload_present: "sample_files (f_path sample_file) = Some 100000"
  by (simp add: sample_files_def sample_file_def js_def)

lemma upload_only_sel:
  "upload_only (js ''uploads/before/drill.jpg'') = None"
  "upload_only (f_path sample_file) = Some 100000"
  by (simp_all add: upload_only_def sample_file_def js_def)

lemma small_files_sel:
  "small_files (js ''uploads/before/drill.jpg'') = Some 4"
  "small_files (f_path small_file) = Some 5"
  by (simp_all add: small_files_def small_file_def sample_file_def js_def)

lemma compare_sizes_samples:
  "compare_sizes 100000 100000 high = \<lparr>similar = True, score = 79\<rparr>"
  "compare_sizes 100000 100000 (Dbl 0 0) = \<lparr>similar = False, score = 44\<rparr>"
  "compare_sizes 4 5 half = \<lparr>similar = True, score = 60\<rparr>"
  by code_simp+

lemma sample_compare_high:
  "compareImages sample_files high (js ''uploads/before/drill.jpg'') (f_path sample_file)
     = \<lparr>similar = True, score = 79\<rparr>"
  by (simp add: compareImages_def sample_reference sample_upload_present compare_sizes_samples)

lemma sample_compare_low:
  "compareImages sample_files (Dbl 0 0) (js ''uploads/before/drill.jpg'') (f_path sample_file)
     = \<lparr>similar = False, score = 44\<rparr>"
  by (simp add: compareImages_def sample_reference sample_upload_present compare_sizes_samples)

lemma small_compare:
  "compareImages small_files half (js ''uploads/before/drill.jpg'') (f_path small_file)
     = \<lparr>similar = True, score = 60\<rparr>"
  by (simp add: compareImages_def small_files_sel compare_sizes_samples)

lemma sample_compare_no_file:
  "compareImages upload_only rnd (js ''uploads/before/drill.jpg'') (f_path sample_file)
     = \<lparr>similar = False, score = 0\<rparr>"
  by (simp add: compareImages_def upload_only_sel)

lemma sample_similarity:
  "similarity_step (sample_env high ok) sample_files drill sample_file
     = Some \<lparr>similar = True, score = 79\<rparr>"
  by (simp add: similarity_step_def drill_def drill_image sample_env_sel sample_reference
      sample_compare_high)

lemma sample_skipped:
  "similarity_step (sample_env rnd ok) upload_only (tools sample_db ! 0) sample_file
     = Some \<lparr>similar = False, score = 0\<rparr>"
  by (simp add: similarity_step_def sample_db_def drill_def drill_image sample_env_sel
      upload_only_sel)

lemma sample_tool_index: "find_tool_index (tools sample_db) (cq_toolId sample_return) = Some 0"
  by (simp add: find_tool_index_def sample_db_def sample_return_def drill_def)

lemma small_tool_index: "find_tool_index (tools sample_db) (cq_toolId small_return) = Some 0"
  by (simp add: find_tool_index_def sample_db_def small_return_def drill_def)

lemma sample_rental_index:
  "find_rental_index (rentals sample_db) (cq_rentalId sample_return) = Some 0"
  by (simp add: find_rental_index_def sample_db_def sample_return_def rental1_def)

lemma small_rental_index:
  "find_rental_index (rentals sample_db) (cq_rentalId small_return) = Some 0"
  by (simp add: find_rental_index_def sample_db_def small_return_def rental1_def)

lemma sample_run:
  "return_check (sample_env high ok) sample_return sample_db sample_files
     = commit_return (sample_env high ok) sample_return sample_file 0
         (upload_judgment (sample_env high ok) sample_file)
         \<lparr>similar = True, score = 79\<rparr> sample_db sample_files"
proof -
  have "similarity_step (sample_env high ok) sample_files (tools sample_db ! 0) sample_file
          = Some \<lparr>similar = True, score = 79\<rparr>"
    using sample_similarity by (simp add: sample_db_def)
  with sample_upload sample_tool_index sample_allowed show ?thesis
    by (rule return_check_reaches_commit)
qed

lemma sample_run_reply:
  "fst (return_check (sample_env high ok) sample_return sample_db sample_files)
     = Json 200 True
         [Units check_mark, Text '' Tool returned successfully and is available for rent.''] None"
  unfolding sample_run by (simp add: commit_return_reply [OF sample_rental_index] sample_judgment)

lemma round_int_samples:
  "round_int (- 1) = - 1" "round_int 0 = 0" "round_int 2 = 2" "round_int 3 = 3"
  by (simp_all add: round_int_exact)

lemma returned_db_eq:
  "returned_db =
     \<lparr>admin = None, users = [],
      tools = [drill\<lparr>t_rented := Num 0, t_available := Num 2\<rparr>],
      rentals = [rental1\<lparr>r_status := RETURNED,
                         r_returnDate := Some (js ''2024-01-04T00:00:00.000Z''),
                         r_afterImage := Some (js ''1_drill_return_7.jpg'')\<rparr>],
      logs = [\<lparr>l_id = 1, l_toolId = Some (js ''drill''), l_userId = Num 1, l_userName = js ''ann'',
               l_rentalId = Some (js ''r1''), l_beforeImage = Some (js ''drill.jpg''),
               l_afterImage = js ''1_drill_return_7.jpg'', l_damageScore = 15,
               l_aiDetected = False, l_aiConfidence = 30, l_damageDetected = False,
               l_damageConfidence = 10, l_imageSimilarity = 79, l_status = js ''Available'',
               l_timestamp = js ''2024-01-04T00:00:00.001Z'', l_action = AUTO_RESOLVED\<rparr>]\<rparr>"
  unfolding returned_db_def sample_run sample_judgment
  by (simp add: commit_return_def find_rental_index_def Let_def writeDB_def sample_db_def
      sample_return_def sample_env_def sample_file_def drill_def rental1_def parseInt_1
      half_draws round_int_samples)

lemma returned_tool_index: "find_tool_index (tools returned_db) (cq_toolId sample_return) = Some 0"
  by (simp add: returned_db_eq find_tool_index_def sample_return_def drill_def)

lemma returned_rental_index:
  "find_rental_index (rentals returned_db) (cq_rentalId sample_return) = Some 0"
  by (simp add: returned_db_eq find_rental_index_def sample_return_def rental1_def)

lemma returned_similarity:
  "similarity_step (sample_env high ok) sample_files (tools returned_db ! 0) sample_file
     = Some \<lparr>similar = True, score = 79\<rparr>"
  by (simp add: similarity_step_def returned_db_eq drill_def drill_image sample_env_sel
      sample_reference sample_compare_high)

subsection \<open>A second return of the same rental\<close>

text \<open>
  Claim C1, as stated, fails: after the return of rental \<open>r1\<close> the rental is \<open>RETURNED\<close> and
  2 of the 2 drills are available; a second return request for \<open>r1\<close> is answered with
  success and leaves 3 drills available.
\<close>

theorem second_return_counterexample:
  "r_status (rentals returned_db ! 0) = RETURNED
   \<and> t_available (tools returned_db ! 0) = Num 2
   \<and> fst (return_check (sample_env high True) sample_return returned_db sample_files)
       = Json 200 True
           [Units check_mark, Text '' Tool returned successfully and is available for rent.''] None
   \<and> t_available
        (tools (fst (snd (return_check (sample_env high True) sample_return returned_db
                            sample_files))) ! 0) = Num 3"
proof -
  have run: "return_check (sample_env high True) sample_return returned_db sample_files
     = commit_return (sample_env high True) sample_return sample_file 0
         (upload_judgment (sample_env high True) sample_file)
         \<lparr>similar = True, score = 79\<rparr> returned_db sample_files"
    using sample_upload returned_tool_index sample_allowed returned_similarity
    by (rule return_check_reaches_commit)
  have ok: "save_ok (sample_env high True)"
    by (simp add: sample_env_def)
  note stored = commit_return_stored(1) [OF returned_rental_index ok, of sample_file 0
      "upload_judgment (sample_env high True) sample_file" "\<lparr>similar = True, score = 79\<rparr>"
      sample_files]
  have "r_status (rentals returned_db ! 0) = RETURNED"
    and "t_available (tools returned_db ! 0) = Num 2"
    by (simp_all add: returned_db_eq drill_def)
  moreover have "fst (return_check (sample_env high True) sample_return returned_db sample_files)
       = Json 200 True
           [Units check_mark, Text '' Tool returned successfully and is available for rent.''] None"
    unfolding run by (simp add: commit_return_reply [OF returned_rental_index] sample_judgment)
  moreover have "t_available
        (tools (fst (snd (return_check (sample_env high True) sample_return returned_db
                            sample_files))) ! 0) = Num 3"
    unfolding run stored
    by (simp add: returned_db_eq drill_def round_int_samples)
  ultimately show ?thesis
    by blast
qed

text \<open>
  Claim C1, amended. The pipeline looks a rental up by its id and does not read its
  status. A return request whose \<open>rentalId\<close> resolves to a rental that is already
  \<open>RETURNED\<close>, and that passes the authenticity and similarity checks, is answered with
  success when the save succeeds: it raises \<open>available\<close> of the tool by 1 once more,
  lowers \<open>rented\<close> by 1 but not below 0, and leaves the rental \<open>RETURNED\<close>. The sum and
  the difference are those of doubles; they are exact for counts below
  \<open>MAX_SAFE_INTEGER\<close> in absolute value.
\<close>

theorem return_of_returned_rental:
  assumes "cq_file req = Some file"
    and "find_tool_index (tools db) (cq_toolId req) = Some i"
    and "allow_upload (upload_judgment env file)"
    and "similarity_step env files (tools db ! i) file = Some c"
    and "find_rental_index (rentals db) (cq_rentalId req) = Some j"
    and "r_status (rentals db ! j) = RETURNED"
    and "save_ok env"
  shows "status (fst (return_check env req db files)) = 200
       \<and> success (fst (return_check env req db files))
       \<and> t_available (tools (fst (snd (return_check env req db files))) ! i)
           = Num (round_int (ToNumber (t_available (tools db ! i)) + 1))
       \<and> t_rented (tools (fst (snd (return_check env req db files))) ! i)
           = Num (max 0 (round_int (ToNumber (t_rented (tools db ! i)) - 1)))
       \<and> (\<bar>ToNumber (t_available (tools db ! i))\<bar> < MAX_SAFE_INTEGER
            \<longrightarrow> t_available (tools (fst (snd (return_check env req db files))) ! i)
                  = Num (ToNumber (t_available (tools db ! i)) + 1))
       \<and> (\<bar>ToNumber (t_rented (tools db ! i))\<bar> < MAX_SAFE_INTEGER
            \<longrightarrow> t_rented (tools (fst (snd (return_check env req db files))) ! i)
                  = Num (max 0 (ToNumber (t_rented (tools db ! i)) - 1)))
       \<and> r_status (rentals (fst (snd (return_check env req db files))) ! j) = RETURNED"
proof -
  have run: "return_check env req db files
               = commit_return env req file i (upload_judgment env file) c db files"
    using assms(1-4) by (rule return_check_reaches_commit)
  from assms(2) have i: "i < length (tools db)"
    by (simp add: find_tool_index_Some)
  from assms(5) have j: "j < length (rentals db)"
    by (simp add: find_rental_index_Some)
  have up: "round_int (ToNumber (t_available (tools db ! i)) + 1)
              = ToNumber (t_available (tools db ! i)) + 1"
    if "\<bar>ToNumber (t_available (tools db ! i))\<bar> < MAX_SAFE_INTEGER"
    using that by (intro round_int_exact) (simp add: MAX_SAFE_INTEGER_def)
  have down: "round_int (ToNumber (t_rented (tools db ! i)) - 1)
              = ToNumber (t_rented (tools db ! i)) - 1"
    if "\<bar>ToNumber (t_rented (tools db ! i))\<bar> < MAX_SAFE_INTEGER"
    using that by (intro round_int_exact) (simp add: MAX_SAFE_INTEGER_def)
  show ?thesis
    unfolding run
    using up down
    by (simp add: commit_return_reply [OF assms(5)] commit_return_stored [OF assms(5) assms(7)] i j
        assms(6))
qed

theorem return_of_returned_rental_witness:
  "cq_file sample_return = Some sample_file
   \<and> find_tool_index (tools returned_db) (cq_toolId sample_return) = Some 0
   \<and> allow_upload (upload_judgment (sample_env high True) sample_file)
   \<and> similarity_step (sample_env high True) sample_files (tools returned_db ! 0) sample_file
       = Some \<lparr>similar = True, score = 79\<rparr>
   \<and> find_rental_index (rentals returned_db) (cq_rentalId sample_return) = Some 0
   \<and> r_status (rentals returned_db ! 0) = RETURNED
   \<and> save_ok (sample_env high True)
   \<and> status (fst (return_check (sample_env high True) sample_return returned_db sample_files)) = 200
   \<and> success (fst (return_check (sample_env high True) sample_return returned_db sample_files))
   \<and> t_available
        (tools (fst (snd (return_check (sample_env high True) sample_return returned_db
                            sample_files))) ! 0) = Num 3
   \<and> t_rented
        (tools (fst (snd (return_check (sample_env high True) sample_return returned_db
                            sample_files))) ! 0) = Num 0"
proof -
  have ok: "save_ok (sample_env high True)"
    by (simp add: sample_env_def)
  have returned: "r_status (rentals returned_db ! 0) = RETURNED"
    by (simp add: returned_db_eq)
  have counts: "Num (round_int (ToNumber (t_available (tools returned_db ! 0)) + 1)) = Num 3"
    "Num (max 0 (round_int (ToNumber (t_rented (tools returned_db ! 0)) - 1))) = Num 0"
    by (simp_all add: returned_db_eq drill_def round_int_samples)
  from return_of_returned_rental [OF sample_upload returned_tool_index sample_allowed
      returned_similarity returned_rental_index returned ok]
  show ?thesis
    unfolding counts
    using sample_upload returned_tool_index sample_allowed returned_similarity
      returned_rental_index returned ok
    by blast
qed

subsection \<open>A save that fails\<close>

text \<open>
  Claim C3, as stated, fails: on the sample return with a save that fails, \<open>writeDB\<close>
  returns \<open>false\<close> and the stored document stays as it was, and the reply is the success
  of a completed return.
\<close>

theorem failed_save_counterexample:
  "\<not> save_ok (sample_env high False)
   \<and> fst (writeDB (save_ok (sample_env high False)) sample_db returned_db) = False
   \<and> fst (return_check (sample_env high False) sample_return sample_db sample_files)
       = Json 200 True
           [Units check_mark, Text '' Tool returned successfully and is available for rent.''] None
   \<and> fst (snd (return_check (sample_env high False) sample_return sample_db sample_files))
       = sample_db"
proof -
  have failed: "\<not> save_ok (sample_env high False)"
    by (simp add: sample_env_sel)
  have "fst (snd (return_check (sample_env high False) sample_return sample_db sample_files))
       = sample_db"
    unfolding sample_run by (rule commit_return_failed_save [OF sample_rental_index failed])
  with failed sample_run_reply [of False] show ?thesis
    by (simp add: writeDB_def)
qed

text \<open>
  Claim C3, amended. \<open>writeDB\<close> reports a failed save by returning \<open>false\<close>, and the
  pipeline does not read that result: a run that reaches the save and whose save fails
  is answered with status 200 and \<open>success: true\<close>, with the message of a completed
  return; the stored document is the one read, and the uploaded file stays on disk.
\<close>

theorem return_failed_save:
  assumes "cq_file req = Some file"
    and "find_tool_index (tools db) (cq_toolId req) = Some i"
    and "allow_upload (upload_judgment env file)"
    and "similarity_step env files (tools db ! i) file = Some c"
    and "find_rental_index (rentals db) (cq_rentalId req) = Some j"
    and "\<not> save_ok env"
  shows "(\<forall>data. writeDB (save_ok env) db data = (False, db))
       \<and> return_check env req db files
           = (Json 200 True
                (if confidence (upload_judgment env file) > 70
                 then [Units check_mark,
                       Text '' Tool returned successfully. Image requires review.'']
                 else [Units check_mark,
                       Text '' Tool returned successfully and is available for rent.'']) None,
              db, files)"
proof -
  have run: "return_check env req db files
               = commit_return env req file i (upload_judgment env file) c db files"
    using assms(1-4) by (rule return_check_reaches_commit)
  have "commit_return env req file i (upload_judgment env file) c db files
          = (Json 200 True
                (if confidence (upload_judgment env file) > 70
                 then [Units check_mark,
                       Text '' Tool returned successfully. Image requires review.'']
                 else [Units check_mark,
                       Text '' Tool returned successfully and is available for rent.'']) None,
              db, files)"
    using commit_return_reply [OF assms(5), of env "file" i "upload_judgment env file" c files]
      commit_return_failed_save [OF assms(5) assms(6), of "file" i "upload_judgment env file" c files]
    by (simp add: prod_eq_iff)
  with assms(6) show ?thesis
    by (simp add: run writeDB_def)
qed

theorem return_failed_save_witness:
  "cq_file sample_return = Some sample_file
   \<and> find_tool_index (tools sample_db) (cq_toolId sample_return) = Some 0
   \<and> allow_upload (upload_judgment (sample_env high False) sample_file)
   \<and> similarity_step (sample_env high False) sample_files (tools sample_db ! 0) sample_file
       = Some \<lparr>similar = True, score = 79\<rparr>
   \<and> find_rental_index (rentals sample_db) (cq_rentalId sample_return) = Some 0
   \<and> \<not> save_ok (sample_env high False)
   \<and> writeDB (save_ok (sample_env high False)) sample_db returned_db = (False, sample_db)
   \<and> return_check (sample_env high False) sample_return sample_db sample_files
       = (Json 200 True
            [Units check_mark, Text '' Tool returned successfully and is available for rent.'']
            None,
          sample_db, sample_files)"
proof -
  have failed: "\<not> save_ok (sample_env high False)"
    by (simp add: sample_env_sel)
  have sim: "similarity_step (sample_env high False) sample_files (tools sample_db ! 0) sample_file
       = Some \<lparr>similar = True, score = 79\<rparr>"
    using sample_similarity by (simp add: sample_db_def)
  have msg: "(if confidence (upload_judgment (sample_env high False) sample_file) > 70
                 then [Units check_mark,
                       Text '' Tool returned successfully. Image requires review.'']
                 else [Units check_mark,
                       Text '' Tool returned successfully and is available for rent.''])
             = [Units check_mark, Text '' Tool returned successfully and is available for rent.'']"
    by (simp add: sample_judgment)
  from return_failed_save [OF sample_upload sample_tool_index sample_allowed sim
      sample_rental_index failed]
  show ?thesis
    unfolding msg
    using sample_upload sample_tool_index sample_allowed sim sample_rental_index failed
    by blast
qed

subsection \<open>The similarity step\<close>

text \<open>
  Claim C8, as stated, fails: the sample tool has the reference image \<open>drill.jpg\<close> on
  record, but no such file is on disk. A comparison would find the images not similar;
  the pipeline makes none and completes the return, changing the counts of the tool.
\<close>

theorem missing_reference_file_counterexample:
  "t_beforeImage (tools sample_db ! 0) = Some (js ''drill.jpg'')
   \<and> \<not> similar (compareImages upload_only high (js ''uploads/before/drill.jpg'')
                  (f_path sample_file))
   \<and> fst (return_check (sample_env high True) sample_return sample_db upload_only)
       = Json 200 True
           [Units check_mark, Text '' Tool returned successfully and is available for rent.''] None
   \<and> t_available (tools sample_db ! 0) = Num 1
   \<and> t_available
        (tools (fst (snd (return_check (sample_env high True) sample_return sample_db
                            upload_only))) ! 0) = Num 2"
proof -
  have run: "return_check (sample_env high True) sample_return sample_db upload_only
     = commit_return (sample_env high True) sample_return sample_file 0
         (upload_judgment (sample_env high True) sample_file)
         \<lparr>similar = False, score = 0\<rparr> sample_db upload_only"
    using sample_upload sample_tool_index sample_allowed sample_skipped
    by (rule return_check_reaches_commit)
  have ok: "save_ok (sample_env high True)"
    by (simp add: sample_env_sel)
  note stored = commit_return_stored(1) [OF sample_rental_index ok, of sample_file 0
      "upload_judgment (sample_env high True) sample_file" "\<lparr>similar = False, score = 0\<rparr>"
      upload_only]
  have "t_beforeImage (tools sample_db ! 0) = Some (js ''drill.jpg'')"
    and "t_available (tools sample_db ! 0) = Num 1"
    by (simp_all add: sample_db_def drill_def)
  moreover have
    "\<not> similar (compareImages upload_only high (js ''uploads/before/drill.jpg'')
                 (f_path sample_file))"
    by (simp add: sample_compare_no_file)
  moreover have "fst (return_check (sample_env high True) sample_return sample_db upload_only)
       = Json 200 True
           [Units check_mark, Text '' Tool returned successfully and is available for rent.''] None"
    unfolding run by (simp add: commit_return_reply [OF sample_rental_index] sample_judgment)
  moreover have "t_available
        (tools (fst (snd (return_check (sample_env high True) sample_return sample_db
                            upload_only))) ! 0) = Num 2"
    unfolding run stored by (simp add: sample_db_def drill_def round_int_samples)
  ultimately show ?thesis
    by blast
qed

text \<open>
  Claim C8, amended. In a run that passes the authenticity check, with the uploaded file
  on disk, the comparison is made when the tool has a non-empty \<open>beforeImage\<close> and that
  file exists in the directory of reference images. If it then yields not similar or a
  score below 60, the pipeline deletes the uploaded file and replies with the 400
  mismatch message, and the stored document is the one read. If it yields similar with a
  score of 60 or more, a request whose rental is found is answered with success, and the
  log entry it stores has that score as \<open>imageSimilarity\<close>. If the tool has no
  \<open>beforeImage\<close>, or the file of its \<open>beforeImage\<close> is missing, the step is skipped: a
  request whose rental is found is answered with success, and the log entry it stores
  has \<open>imageSimilarity\<close> 0.
\<close>

theorem similarity_check:
  assumes "cq_file req = Some file"
    and "files (f_path file) = Some sz"
    and "find_tool_index (tools db) (cq_toolId req) = Some i"
    and "allow_upload (upload_judgment env file)"
  shows
    "(\<forall>img. t_beforeImage (tools db ! i) = Some img \<and> img \<noteq> []
            \<and> files (before_path env img) \<noteq> None
            \<and> (\<not> similar (compareImages files (rnd_similarity env) (before_path env img) (f_path file))
               \<or> score (compareImages files (rnd_similarity env) (before_path env img) (f_path file)) < 60)
        \<longrightarrow> return_check env req db files
              = (Json 400 False (mismatch_message (t_name (tools db ! i))) None, db,
                 files(f_path file := None)))
     \<and> (\<forall>img. t_beforeImage (tools db ! i) = Some img \<and> img \<noteq> []
            \<and> files (before_path env img) \<noteq> None
            \<and> similar (compareImages files (rnd_similarity env) (before_path env img) (f_path file))
            \<and> 60 \<le> score (compareImages files (rnd_similarity env) (before_path env img) (f_path file))
        \<longrightarrow> (\<forall>j. find_rental_index (rentals db) (cq_rentalId req) = Some j
               \<longrightarrow> status (fst (return_check env req db files)) = 200
                 \<and> success (fst (return_check env req db files))
                 \<and> (save_ok env
                      \<longrightarrow> l_imageSimilarity (last (logs (fst (snd (return_check env req db files)))))
                            = score (compareImages files (rnd_similarity env) (before_path env img)
                                       (f_path file)))))
     \<and> ((t_beforeImage (tools db ! i) = None \<or> t_beforeImage (tools db ! i) = Some []
          \<or> (\<exists>img. t_beforeImage (tools db ! i) = Some img \<and> files (before_path env img) = None))
        \<longrightarrow> (\<forall>j. find_rental_index (rentals db) (cq_rentalId req) = Some j
               \<longrightarrow> status (fst (return_check env req db files)) = 200
                 \<and> success (fst (return_check env req db files))
                 \<and> (save_ok env
                      \<longrightarrow> l_imageSimilarity (last (logs (fst (snd (return_check env req db files))))) = 0)))"
proof (intro conjI allI impI)
  fix img
  assume a: "t_beforeImage (tools db ! i) = Some img \<and> img \<noteq> []
            \<and> files (before_path env img) \<noteq> None
            \<and> (\<not> similar (compareImages files (rnd_similarity env) (before_path env img) (f_path file))
               \<or> score (compareImages files (rnd_similarity env) (before_path env img) (f_path file)) < 60)"
  then have "similarity_step env files (tools db ! i) file = None"
    by (intro similarity_step_mismatch) auto
  with assms show "return_check env req db files
              = (Json 400 False (mismatch_message (t_name (tools db ! i))) None, db,
                 files(f_path file := None))"
    by (simp add: return_check_def Let_def abort_return_def)
next
  fix img j
  assume a: "t_beforeImage (tools db ! i) = Some img \<and> img \<noteq> []
            \<and> files (before_path env img) \<noteq> None
            \<and> similar (compareImages files (rnd_similarity env) (before_path env img) (f_path file))
            \<and> 60 \<le> score (compareImages files (rnd_similarity env) (before_path env img) (f_path file))"
    and j: "find_rental_index (rentals db) (cq_rentalId req) = Some j"
  from a have sim: "similarity_step env files (tools db ! i) file
      = Some (compareImages files (rnd_similarity env) (before_path env img) (f_path file))"
    by (intro similarity_step_passed) auto
  have run: "return_check env req db files
               = commit_return env req file i (upload_judgment env file)
                   (compareImages files (rnd_similarity env) (before_path env img) (f_path file))
                   db files"
    using assms(1) assms(3) assms(4) sim by (rule return_check_reaches_commit)
  show "status (fst (return_check env req db files)) = 200"
    unfolding run by (simp add: commit_return_reply [OF j])
  show "success (fst (return_check env req db files))"
    unfolding run by (simp add: commit_return_reply [OF j])
  show "l_imageSimilarity (last (logs (fst (snd (return_check env req db files)))))
          = score (compareImages files (rnd_similarity env) (before_path env img) (f_path file))"
    if "save_ok env"
    unfolding run by (rule commit_return_stored(4) [OF j that])
next
  fix j
  assume skip: "t_beforeImage (tools db ! i) = None \<or> t_beforeImage (tools db ! i) = Some []
          \<or> (\<exists>img. t_beforeImage (tools db ! i) = Some img \<and> files (before_path env img) = None)"
    and j: "find_rental_index (rentals db) (cq_rentalId req) = Some j"
  from skip have sim: "similarity_step env files (tools db ! i) file = Some \<lparr>similar = False, score = 0\<rparr>"
    by (rule similarity_step_skipped)
  have run: "return_check env req db files
               = commit_return env req file i (upload_judgment env file)
                   \<lparr>similar = False, score = 0\<rparr> db files"
    using assms(1) assms(3) assms(4) sim by (rule return_check_reaches_commit)
  show "status (fst (return_check env req db files)) = 200"
    unfolding run by (simp add: commit_return_reply [OF j])
  show "success (fst (return_check env req db files))"
    unfolding run by (simp add: commit_return_reply [OF j])
  show "l_imageSimilarity (last (logs (fst (snd (return_check env req db files))))) = 0"
    if "save_ok env"
    unfolding run using commit_return_stored(4) [OF j that, of "file" i "upload_judgment env file"
        "\<lparr>similar = False, score = 0\<rparr>" files]
    by simp
qed

theorem similarity_check_witness:
  "cq_file sample_return = Some sample_file
   \<and> find_tool_index (tools sample_db) (cq_toolId sample_return) = Some 0
   \<and> allow_upload (upload_judgment (sample_env (Dbl 0 0) True) sample_file)
   \<and> t_beforeImage (tools sample_db ! 0) = Some (js ''drill.jpg'')
   \<and> sample_files (f_path sample_file) = Some 100000
   \<and> sample_files (before_path (sample_env (Dbl 0 0) True) (js ''drill.jpg'')) = Some 100000
   \<and> score (compareImages sample_files (rnd_similarity (sample_env (Dbl 0 0) True))
               (before_path (sample_env (Dbl 0 0) True) (js ''drill.jpg'')) (f_path sample_file))
       = 44
   \<and> return_check (sample_env (Dbl 0 0) True) sample_return sample_db sample_files
       = (Json 400 False (mismatch_message (Some (js ''Drill''))) None, sample_db,
          sample_files(f_path sample_file := None))
   \<and> cq_file small_return = Some small_file
   \<and> find_tool_index (tools sample_db) (cq_toolId small_return) = Some 0
   \<and> allow_upload (upload_judgment (sample_env half True) small_file)
   \<and> small_files (f_path small_file) = Some 5
   \<and> small_files (before_path (sample_env half True) (js ''drill.jpg'')) = Some 4
   \<and> compareImages small_files (rnd_similarity (sample_env half True))
         (before_path (sample_env half True) (js ''drill.jpg'')) (f_path small_file)
       = \<lparr>similar = True, score = 60\<rparr>
   \<and> find_rental_index (rentals sample_db) (cq_rentalId small_return) = Some 0
   \<and> save_ok (sample_env half True)
   \<and> status (fst (return_check (sample_env half True) small_return sample_db small_files)) = 200
   \<and> success (fst (return_check (sample_env half True) small_return sample_db small_files))
   \<and> l_imageSimilarity
        (last (logs (fst (snd (return_check (sample_env half True) small_return sample_db
                                 small_files))))) = 60
   \<and> upload_only (f_path sample_file) = Some 100000
   \<and> upload_only (before_path (sample_env (Dbl 0 0) True) (js ''drill.jpg'')) = None
   \<and> find_rental_index (rentals sample_db) (cq_rentalId sample_return) = Some 0
   \<and> save_ok (sample_env (Dbl 0 0) True)
   \<and> status (fst (return_check (sample_env (Dbl 0 0) True) sample_return sample_db upload_only))
       = 200
   \<and> success (fst (return_check (sample_env (Dbl 0 0) True) sample_return sample_db upload_only))
   \<and> l_imageSimilarity
        (last (logs (fst (snd (return_check (sample_env (Dbl 0 0) True) sample_return sample_db
                                 upload_only))))) = 0"
proof -
  have img: "t_beforeImage (tools sample_db ! 0) = Some (js ''drill.jpg'')"
    and name: "t_name (tools sample_db ! 0) = Some (js ''Drill'')"
    by (simp_all add: sample_db_def drill_def)
  have ref: "sample_files (before_path (sample_env (Dbl 0 0) True) (js ''drill.jpg''))
               = Some 100000"
    by (simp add: sample_env_sel sample_reference)
  have low: "compareImages sample_files (rnd_similarity (sample_env (Dbl 0 0) True))
               (before_path (sample_env (Dbl 0 0) True) (js ''drill.jpg'')) (f_path sample_file)
             = \<lparr>similar = False, score = 44\<rparr>"
    using sample_compare_low by (simp add: sample_env_sel)
  have small_ref: "small_files (before_path (sample_env half True) (js ''drill.jpg'')) = Some 4"
    by (simp add: sample_env_sel small_files_sel)
  have pass: "compareImages small_files (rnd_similarity (sample_env half True))
         (before_path (sample_env half True) (js ''drill.jpg'')) (f_path small_file)
       = \<lparr>similar = True, score = 60\<rparr>"
    using small_compare by (simp add: sample_env_sel)
  have missing: "upload_only (before_path (sample_env (Dbl 0 0) True) (js ''drill.jpg'')) = None"
    by (simp add: sample_env_sel upload_only_sel)
  have ok: "save_ok (sample_env (Dbl 0 0) True)" and ok': "save_ok (sample_env half True)"
    by (simp_all add: sample_env_sel)
  have mismatch: "return_check (sample_env (Dbl 0 0) True) sample_return sample_db sample_files
       = (Json 400 False (mismatch_message (Some (js ''Drill''))) None, sample_db,
          sample_files(f_path sample_file := None))"
    using similarity_check [where files = sample_files and env = "sample_env (Dbl 0 0) True",
        OF sample_upload sample_upload_present sample_tool_index sample_allowed] img ref low
      drill_image
    unfolding name by simp
  have passed:
    "status (fst (return_check (sample_env half True) small_return sample_db small_files)) = 200
     \<and> success (fst (return_check (sample_env half True) small_return sample_db small_files))
     \<and> l_imageSimilarity
        (last (logs (fst (snd (return_check (sample_env half True) small_return sample_db
                                 small_files))))) = 60"
    using similarity_check [where files = small_files and env = "sample_env half True",
        OF small_upload small_files_sel(2) small_tool_index small_allowed]
      img small_ref pass drill_image small_rental_index ok'
    by simp
  have skipped:
    "status (fst (return_check (sample_env (Dbl 0 0) True) sample_return sample_db upload_only))
       = 200
     \<and> success (fst (return_check (sample_env (Dbl 0 0) True) sample_return sample_db upload_only))
     \<and> l_imageSimilarity
        (last (logs (fst (snd (return_check (sample_env (Dbl 0 0) True) sample_return sample_db
                                 upload_only))))) = 0"
    using similarity_check [where files = upload_only and env = "sample_env (Dbl 0 0) True",
        OF sample_upload upload_only_sel(2) sample_tool_index sample_allowed]
      img missing sample_rental_index ok
    by blast
  from sample_upload sample_tool_index sample_allowed img sample_upload_present ref low
    mismatch small_upload small_tool_index small_allowed small_files_sel(2) small_ref pass
    small_rental_index ok' passed upload_only_sel(2) missing sample_rental_index ok skipped
  show ?thesis
    by simp
qed

section \<open>Saving, file by file\<close>

lemma tempPath_differs: "tempPath DB_PATH \<noteq> DB_PATH"
  by (simp add: tempPath_def)

lemma write_states_last: "last (op_states (WriteFile p content) fs) = fs(p \<mapsto> content)"
  by simp

lemma write_states_elsewhere:
  assumes "fs' \<in> set (op_states (WriteFile p content) fs)" and "q \<noteq> p"
  shows "fs' q = fs q"
  using assms by auto

lemma writeDB_states_unfold:
  "writeDB_states DB_PATH json fs =
     fs # butlast (op_states (WriteFile (tempPath DB_PATH) json) fs)
       @ [fs(tempPath DB_PATH \<mapsto> json),
          (fs(tempPath DB_PATH := None))(DB_PATH \<mapsto> json)]"
  using tempPath_differs [of DB_PATH]
  by (simp add: writeDB_states_def writeDB_ops_def del: op_states.simps(1) add: write_states_last)

text \<open>
  Claim C5. A save consists of two operations: it writes the serialised document to the
  temporary sibling \<open>DB_PATH + '.tmp'\<close>, a different path, and then renames that file
  over \<open>DB_PATH\<close>. In every state of the file system from the call to its completion
  (the states in which a crash, or a failure of either operation, leaves the disk), the
  canonical file is what it was before the save or the complete new document; when the
  rename starts the temporary file holds the complete new document, and after the save
  the canonical file does.
\<close>

theorem writeDB_atomic:
  assumes "fs' \<in> set (writeDB_states DB_PATH json fs)"
  shows "writeDB_ops DB_PATH json
           = [WriteFile (tempPath DB_PATH) json, Rename (tempPath DB_PATH) DB_PATH]
       \<and> tempPath DB_PATH \<noteq> DB_PATH
       \<and> (fs' DB_PATH = fs DB_PATH \<or> fs' DB_PATH = Some json)
       \<and> last (butlast (writeDB_states DB_PATH json fs)) (tempPath DB_PATH) = Some json
       \<and> last (writeDB_states DB_PATH json fs) DB_PATH = Some json"
proof -
  let ?tmp = "tempPath DB_PATH"
  have differs: "DB_PATH \<noteq> ?tmp"
    using tempPath_differs [of DB_PATH] by simp
  from assms consider
      (start) "fs' = fs"
    | (writing) "fs' \<in> set (butlast (op_states (WriteFile ?tmp json) fs))"
    | (written) "fs' = fs(?tmp \<mapsto> json)"
    | (renamed) "fs' = (fs(?tmp := None))(DB_PATH \<mapsto> json)"
    unfolding writeDB_states_unfold by auto
  then have canonical: "fs' DB_PATH = fs DB_PATH \<or> fs' DB_PATH = Some json"
  proof cases
    case start
    then show ?thesis by simp
  next
    case writing
    then have "fs' \<in> set (op_states (WriteFile ?tmp json) fs)"
      by (rule in_set_butlastD)
    then have "fs' DB_PATH = fs DB_PATH"
      using differs by (rule write_states_elsewhere)
    then show ?thesis by simp
  next
    case written
    with differs show ?thesis by simp
  next
    case renamed
    then show ?thesis by simp
  qed
  have "last (butlast (writeDB_states DB_PATH json fs)) ?tmp = Some json"
    unfolding writeDB_states_unfold by (simp add: butlast_append)
  moreover have "last (writeDB_states DB_PATH json fs) DB_PATH = Some json"
    unfolding writeDB_states_unfold by simp
  ultimately show ?thesis
    using canonical differs by (simp add: writeDB_ops_def)
qed

lemma sample_states_length: "length (writeDB_states ''db.json'' ''[1,2]'' old_disk) = 8"
  unfolding writeDB_states_unfold by simp

lemma sample_state_2:
 "(writeDB_states ''db.json'' ''[1,2]'' old_disk ! 2) = old_disk(''db.json.tmp'' \<mapsto> ''['')"
  unfolding writeDB_states_unfold by (simp add: tempPath_def nth_append)

theorem writeDB_atomic_witness:
  "writeDB_states ''db.json'' ''[1,2]'' old_disk ! 2 \<in> set (writeDB_states ''db.json'' ''[1,2]'' old_disk)
   \<and> (writeDB_states ''db.json'' ''[1,2]'' old_disk ! 2) ''db.json.tmp'' = Some ''[''
   \<and> (writeDB_states ''db.json'' ''[1,2]'' old_disk ! 2) ''db.json'' = old_disk ''db.json''
   \<and> old_disk ''db.json'' = Some ''[1]''
   \<and> last (butlast (writeDB_states ''db.json'' ''[1,2]'' old_disk)) ''db.json.tmp'' = Some ''[1,2]''
   \<and> last (writeDB_states ''db.json'' ''[1,2]'' old_disk) ''db.json'' = Some ''[1,2]''"
proof -
  have member: "writeDB_states ''db.json'' ''[1,2]'' old_disk ! 2
                  \<in> set (writeDB_states ''db.json'' ''[1,2]'' old_disk)"
    by (rule nth_mem) (simp add: sample_states_length)
  have tmp: "tempPath ''db.json'' = ''db.json.tmp''"
    by (simp add: tempPath_def)
  have "(writeDB_states ''db.json'' ''[1,2]'' old_disk ! 2) ''db.json.tmp'' = Some ''[''"
    and "(writeDB_states ''db.json'' ''[1,2]'' old_disk ! 2) ''db.json'' = old_disk ''db.json''"
    and "old_disk ''db.json'' = Some ''[1]''"
    unfolding sample_state_2 by (simp_all add: old_disk_def)
  with writeDB_atomic [OF member] member show ?thesis
    unfolding tmp by simp
qed

section \<open>The inventory invariant\<close>

lemma safe_tool_iff:
  "safe_tool t \<longleftrightarrow>
     (\<exists>q r. t_quantity t = Num q \<and> t_rented t = Num r \<and> t_available t = Num (q - r)
            \<and> 0 \<le> r \<and> r \<le> q \<and> q \<le> MAX_SAFE_INTEGER)"
  by (auto simp add: safe_tool_def tool_inv_def split: jsnum.splits)

lemma safe_tools_iff:
  "list_all safe_tool (tools db) \<longleftrightarrow> doc_inv db \<and> safe_quantities db"
  by (auto simp add: safe_tool_def doc_inv_def safe_quantities_def list_all_iff)

lemma list_all_update:
  assumes "list_all P xs" and "P v"
  shows "list_all P (xs[i := v])"
proof -
  have "set (xs[i := v]) \<subseteq> insert v (set xs)"
    by (rule set_update_subset_insert)
  with assms show ?thesis
    by (auto simp add: list_all_iff)
qed

lemma safe_tools_nth:
  assumes "list_all safe_tool (tools db)" and "i < length (tools db)"
  shows "safe_tool (tools db ! i)"
  using assms by (simp add: list_all_length)

lemma round_int_count:
  assumes "- 1 \<le> n" and "n \<le> MAX_SAFE_INTEGER"
  shows "round_int n = n"
  using assms by (intro round_int_exact) (simp add: MAX_SAFE_INTEGER_def)

lemma rent_keeps_safe:
  assumes "list_all safe_tool (tools db)"
  shows "list_all safe_tool (tools (snd (rent parseFloat uuid now fs_ok req db)))"
proof (cases "find_tool_index (tools db) (rq_toolId req)")
  case None
  with assms show ?thesis by (simp add: rent_def)
next
  case (Some i)
  then have "i < length (tools db)"
    by (simp add: find_tool_index_Some)
  with assms have "safe_tool (tools db ! i)"
    by (rule safe_tools_nth)
  then obtain q r where counts: "t_quantity (tools db ! i) = Num q" "t_rented (tools db ! i) = Num r"
      "t_available (tools db ! i) = Num (q - r)" "0 \<le> r" "r \<le> q" "q \<le> MAX_SAFE_INTEGER"
    by (auto simp add: safe_tool_iff)
  show ?thesis
  proof (cases "q - r \<le> 0")
    case True
    with Some counts assms show ?thesis by (simp add: rent_def)
  next
    case False
    with counts have exact: "round_int (r + 1) = r + 1" "round_int (q - r - 1) = q - r - 1"
      by (simp_all add: round_int_count)
    from False counts
    have "safe_tool ((tools db ! i)\<lparr>t_rented := Num (r + 1), t_available := Num (q - r - 1)\<rparr>)"
      by (simp add: safe_tool_iff)
    with assms have "list_all safe_tool
        ((tools db)[i := (tools db ! i)\<lparr>t_rented := Num (r + 1), t_available := Num (q - r - 1)\<rparr>])"
      by (rule list_all_update)
    with Some counts False exact assms show ?thesis
      by (simp add: rent_def Let_def writeDB_def)
  qed
qed

lemma admin_tools_keeps_safe:
  assumes "list_all safe_tool (tools db)"
    and "parseInt (tq_quantity req) = Fin q"
    and "q \<le> MAX_SAFE_INTEGER"
    and "find_tool_index (tools db) (tq_id req) = None \<longrightarrow> 0 \<le> q"
  shows "list_all safe_tool (tools (snd (admin_tools toLowerCase parseFloat fs_ok req db)))"
proof (cases "find_tool_index (tools db) (tq_id req)")
  case (Some i)
  then have "i < length (tools db)"
    by (simp add: find_tool_index_Some)
  with assms(1) have "safe_tool (tools db ! i)"
    by (rule safe_tools_nth)
  then obtain r where counts: "t_rented (tools db ! i) = Num r" "0 \<le> r"
    by (auto simp add: safe_tool_iff)
  show ?thesis
  proof (cases "q < r")
    case True
    with Some counts assms show ?thesis by (simp add: admin_tools_def)
  next
    case False
    with counts assms(3) have exact: "round_int (q - r) = q - r"
      by (simp add: round_int_count)
    define tool' where "tool' = (tools db ! i)
          \<lparr>t_name := tq_name req, t_price := parseFloat (tq_price req),
           t_quantity := Num q, t_available := Num (q - r),
           t_beforeImage := tq_beforeImage req,
           t_description := or_else (tq_description req) (t_description (tools db ! i)),
           t_specs := (case tq_specs req of None \<Rightarrow> t_specs (tools db ! i) | Some sp \<Rightarrow> sp)\<rparr>"
    from counts False assms(3) have "safe_tool tool'"
      by (simp add: safe_tool_iff tool'_def)
    with assms(1) have "list_all safe_tool ((tools db)[i := tool'])"
      by (rule list_all_update)
    with Some counts False exact assms show ?thesis
      by (simp add: admin_tools_def Let_def writeDB_def tool'_def)
  qed
next
  case None
  with assms(4) have q: "0 \<le> q" by simp
  show ?thesis
  proof (cases "tq_name req")
    case no_name: None
    with None assms(1) show ?thesis by (simp add: admin_tools_def)
  next
    case (Some name)
    with None assms(1,2,3) q show ?thesis
      by (simp add: admin_tools_def Let_def writeDB_def safe_tool_iff)
  qed
qed

lemma delete_tool_keeps_safe:
  assumes "list_all safe_tool (tools db)"
  shows "list_all safe_tool (tools (snd (delete_tool fs_ok toolId db)))"
  using assms by (simp add: delete_tool_def Let_def writeDB_def list_all_iff)

lemma abort_return_doc: "fst (snd (abort_return reply f db files)) = db"
  by (simp add: abort_return_def split: option.splits)

lemma commit_return_keeps_safe:
  assumes "list_all safe_tool (tools db)" and "i < length (tools db)"
    and "1 \<le> ToNumber (t_rented (tools db ! i))"
  shows "list_all safe_tool (tools (fst (snd (commit_return env req f i ai c db files))))"
proof (cases "find_rental_index (rentals db) (cq_rentalId req)")
  case None
  with assms(1) show ?thesis
    by (simp add: commit_return_def abort_return_doc)
next
  case (Some j)
  from assms(1,2) have "safe_tool (tools db ! i)"
    by (rule safe_tools_nth)
  then obtain q r where counts: "t_quantity (tools db ! i) = Num q" "t_rented (tools db ! i) = Num r"
      "t_available (tools db ! i) = Num (q - r)" "0 \<le> r" "r \<le> q" "q \<le> MAX_SAFE_INTEGER"
    by (auto simp add: safe_tool_iff)
  with assms(3) have exact: "round_int (r - 1) = r - 1" "round_int (q - r + 1) = q - r + 1"
    by (simp_all add: round_int_count)
  from counts assms(3)
  have "safe_tool ((tools db ! i)\<lparr>t_rented := Num (max 0 (r - 1)), t_available := Num (q - r + 1)\<rparr>)"
    by (simp add: safe_tool_iff)
  with assms(1) have "list_all safe_tool ((tools db)[i := (tools db ! i)
                         \<lparr>t_rented := Num (max 0 (r - 1)), t_available := Num (q - r + 1)\<rparr>])"
    by (rule list_all_update)
  with Some counts exact assms(1) show ?thesis
    by (simp add: commit_return_def Let_def writeDB_def)
qed

lemma return_check_keeps_safe:
  assumes "list_all safe_tool (tools db)"
    and "\<forall>i. find_tool_index (tools db) (cq_toolId req) = Some i
             \<longrightarrow> 1 \<le> ToNumber (t_rented (tools db ! i))"
  shows "list_all safe_tool (tools (fst (snd (return_check env req db files))))"
proof (cases "cq_file req")
  case None
  with assms(1) show ?thesis by (simp add: return_check_def)
next
  case (Some f)
  show ?thesis
  proof (cases "find_tool_index (tools db) (cq_toolId req)")
    case None
    with Some assms(1) show ?thesis by (simp add: return_check_def)
  next
    case found: (Some i)
    then have i: "i < length (tools db)"
      by (simp add: find_tool_index_Some)
    from found assms(2) have "1 \<le> ToNumber (t_rented (tools db ! i))"
      by simp
    with assms(1) i
    have "list_all safe_tool (tools (fst (snd (commit_return env req f i ai c db files))))" for ai c
      by (rule commit_return_keeps_safe)
    with Some found assms(1) show ?thesis
      by (simp add: return_check_def Let_def abort_return_doc split: option.splits)
  qed
qed

lemma action_names:
  "js ''Remove'' \<noteq> js ''Repaired''" "js ''MakeAvailable'' \<noteq> js ''Repaired''"
  "js ''MakeAvailable'' \<noteq> js ''Remove''"
  by (simp_all add: js_def)

lemma apply_action_remove:
  assumes "safe_tool t" and "t_rented t = Num 0"
  shows "safe_tool (apply_action (js ''Remove'') t)"
proof -
  from assms obtain q where counts: "t_quantity t = Num q" "t_available t = Num q" "0 \<le> q"
      "q \<le> MAX_SAFE_INTEGER"
    by (auto simp add: safe_tool_iff)
  then have "round_int (q - 1) = q - 1"
    by (simp add: round_int_count)
  with counts assms(2) show ?thesis
    by (simp add: apply_action_def action_names safe_tool_iff Let_def)
qed

lemma apply_action_add:
  assumes "action = js ''Repaired'' \<or> action = js ''MakeAvailable''"
  shows "t_available (apply_action action t) = Num (round_int (ToNumber (t_available t) + 1))
       \<and> t_quantity (apply_action action t) = t_quantity t
       \<and> t_rented (apply_action action t) = t_rented t"
proof -
  from assms consider "action = js ''Repaired''" | "action = js ''MakeAvailable''"
    by blast
  then show ?thesis
    by cases (simp_all add: apply_action_def action_names)
qed

lemma logs_action_tools:
  assumes "find_log_index (logs db) (aq_logId req) = Some li"
    and "find_tool_index (tools db) (l_toolId (logs db ! li)) = Some ti"
  shows "tools (snd (logs_action True req db))
           = (tools db)[ti := apply_action (aq_action req) (tools db ! ti)]"
    and "tools (snd (logs_action False req db)) = tools db"
  using assms by (simp_all add: logs_action_def Let_def writeDB_def)

lemma logs_action_keeps_safe:
  assumes "list_all safe_tool (tools db)"
    and "find_log_index (logs db) (aq_logId req) = Some li"
    and "find_tool_index (tools db) (l_toolId (logs db ! li)) = Some ti"
    and "safe_tool (apply_action (aq_action req) (tools db ! ti))"
  shows "list_all safe_tool (tools (snd (logs_action fs_ok req db)))"
proof (cases fs_ok)
  case True
  from assms(1,4)
  have "list_all safe_tool ((tools db)[ti := apply_action (aq_action req) (tools db ! ti)])"
    by (rule list_all_update)
  with True show ?thesis
    by (simp add: logs_action_tools(1) [OF assms(2,3)])
next
  case False
  with assms(1) show ?thesis
    by (simp add: logs_action_tools(2) [OF assms(2,3)])
qed

subsection \<open>The invariant on the sample documents\<close>

lemma sample_db_inv: "doc_inv sample_db" and sample_db_safe: "safe_quantities sample_db"
  by (simp_all add: doc_inv_def safe_quantities_def tool_inv_def sample_db_def drill_def
      MAX_SAFE_INTEGER_def)

lemma returned_db_inv: "doc_inv returned_db" and returned_db_safe: "safe_quantities returned_db"
  by (simp_all add: doc_inv_def safe_quantities_def tool_inv_def returned_db_eq drill_def
      MAX_SAFE_INTEGER_def)

lemma returned_log_index:
  "find_log_index (logs returned_db) (aq_logId (resolve_request action)) = Some 0"
  by (simp add: find_log_index_def returned_db_eq resolve_request_def parseInt_1)

lemma returned_log_tool:
  "find_tool_index (tools returned_db) (l_toolId (logs returned_db ! 0)) = Some 0"
  by (simp add: find_tool_index_def returned_db_eq drill_def)

lemma repaired_tools:
  "tools (snd (logs_action True (resolve_request (js ''Repaired'')) returned_db))
     = [drill\<lparr>t_rented := Num 0, t_available := Num 3\<rparr>]"
  unfolding logs_action_tools(1) [OF returned_log_index returned_log_tool]
  by (simp add: returned_db_eq resolve_request_def apply_action_def round_int_samples)

text \<open>
  Claim C2, as stated, fails for audit resolution: in the document stored by the sample
  return every tool satisfies \<open>available == quantity - rented\<close> and
  \<open>0 <= rented <= quantity\<close>; after the resolution of its log entry with the action
  \<open>Repaired\<close> the drill has quantity 2, rented 0 and available 3.
\<close>

theorem repaired_counterexample:
  "doc_inv returned_db
   \<and> safe_quantities returned_db
   \<and> t_quantity (tools (snd (logs_action True (resolve_request (js ''Repaired'')) returned_db)) ! 0)
       = Num 2
   \<and> t_rented (tools (snd (logs_action True (resolve_request (js ''Repaired'')) returned_db)) ! 0)
       = Num 0
   \<and> t_available (tools (snd (logs_action True (resolve_request (js ''Repaired'')) returned_db)) ! 0)
       = Num 3
   \<and> \<not> doc_inv (snd (logs_action True (resolve_request (js ''Repaired'')) returned_db))"
  using returned_db_inv returned_db_safe
  by (simp add: doc_inv_def repaired_tools tool_inv_def drill_def)

text \<open>
  Claim C2, amended. Let every tool of the stored document satisfy
  \<open>available == quantity - rented\<close> and \<open>0 <= rented <= quantity\<close>, with every quantity at
  most \<open>MAX_SAFE_INTEGER\<close>. Then the same holds of the document stored after a rent
  request, after a delete request, after a create-or-update request whose \<open>quantity\<close>
  parses to an integer of at most \<open>MAX_SAFE_INTEGER\<close> (a non-negative one on the create
  path), after a return-pipeline run for a tool with \<open>rented\<close> at least 1, and after an
  audit resolution \<open>Remove\<close> for a tool with \<open>rented\<close> 0. An audit resolution \<open>Repaired\<close> or
  \<open>MakeAvailable\<close> that is saved leaves \<open>quantity\<close> and \<open>rented\<close> of the tool as they are
  and raises \<open>available\<close> to \<open>quantity - rented + 1\<close>.
\<close>

theorem inventory_invariant:
  assumes "doc_inv db" and "safe_quantities db"
  shows
    "doc_inv (snd (rent parseFloat uuid now fs_ok rent_req db))
     \<and> safe_quantities (snd (rent parseFloat uuid now fs_ok rent_req db))
     \<and> (\<forall>q. parseInt (tq_quantity tool_req) = Fin q \<and> q \<le> MAX_SAFE_INTEGER
             \<and> (find_tool_index (tools db) (tq_id tool_req) = None \<longrightarrow> 0 \<le> q)
          \<longrightarrow> doc_inv (snd (admin_tools toLowerCase parseFloat fs_ok tool_req db))
            \<and> safe_quantities (snd (admin_tools toLowerCase parseFloat fs_ok tool_req db)))
     \<and> doc_inv (snd (delete_tool fs_ok toolId db))
     \<and> safe_quantities (snd (delete_tool fs_ok toolId db))
     \<and> ((\<forall>i. find_tool_index (tools db) (cq_toolId return_req) = Some i
              \<longrightarrow> 1 \<le> ToNumber (t_rented (tools db ! i)))
          \<longrightarrow> doc_inv (fst (snd (return_check env return_req db files)))
            \<and> safe_quantities (fst (snd (return_check env return_req db files))))
     \<and> (\<forall>li ti. find_log_index (logs db) (aq_logId action_req) = Some li
             \<and> find_tool_index (tools db) (l_toolId (logs db ! li)) = Some ti
          \<longrightarrow> (aq_action action_req = js ''Remove'' \<and> t_rented (tools db ! ti) = Num 0
                 \<longrightarrow> doc_inv (snd (logs_action fs_ok action_req db))
                   \<and> safe_quantities (snd (logs_action fs_ok action_req db)))
            \<and> (aq_action action_req = js ''Repaired''
                 \<or> aq_action action_req = js ''MakeAvailable''
                 \<longrightarrow> ToNumber (t_available (tools (snd (logs_action True action_req db)) ! ti))
                       = ToNumber (t_quantity (tools db ! ti))
                           - ToNumber (t_rented (tools db ! ti)) + 1
                   \<and> t_quantity (tools (snd (logs_action True action_req db)) ! ti)
                       = t_quantity (tools db ! ti)
                   \<and> t_rented (tools (snd (logs_action True action_req db)) ! ti)
                       = t_rented (tools db ! ti)))"
proof -
  from assms have good: "list_all safe_tool (tools db)"
    by (simp add: safe_tools_iff)
  have audit:
    "(aq_action action_req = js ''Remove'' \<and> t_rented (tools db ! ti) = Num 0
        \<longrightarrow> doc_inv (snd (logs_action fs_ok action_req db))
          \<and> safe_quantities (snd (logs_action fs_ok action_req db)))
     \<and> (aq_action action_req = js ''Repaired'' \<or> aq_action action_req = js ''MakeAvailable''
        \<longrightarrow> ToNumber (t_available (tools (snd (logs_action True action_req db)) ! ti))
              = ToNumber (t_quantity (tools db ! ti)) - ToNumber (t_rented (tools db ! ti)) + 1
          \<and> t_quantity (tools (snd (logs_action True action_req db)) ! ti)
              = t_quantity (tools db ! ti)
          \<and> t_rented (tools (snd (logs_action True action_req db)) ! ti)
              = t_rented (tools db ! ti))"
    if li: "find_log_index (logs db) (aq_logId action_req) = Some li"
      and ti: "find_tool_index (tools db) (l_toolId (logs db ! li)) = Some ti"
    for li ti
  proof -
    from ti have bound: "ti < length (tools db)"
      by (simp add: find_tool_index_Some)
    with good have inv: "safe_tool (tools db ! ti)"
      by (rule safe_tools_nth)
    then obtain q r where counts: "t_quantity (tools db ! ti) = Num q"
        "t_rented (tools db ! ti) = Num r" "t_available (tools db ! ti) = Num (q - r)"
        "0 \<le> r" "r \<le> q" "q \<le> MAX_SAFE_INTEGER"
      by (auto simp add: safe_tool_iff)
    then have exact: "round_int (q - r + 1) = q - r + 1"
      by (intro round_int_safe) simp_all
    have "doc_inv (snd (logs_action fs_ok action_req db))
          \<and> safe_quantities (snd (logs_action fs_ok action_req db))"
      if "aq_action action_req = js ''Remove''" and "t_rented (tools db ! ti) = Num 0"
      unfolding safe_tools_iff [symmetric]
      using good li ti apply_action_remove [OF inv that(2)] that(1)
      by (simp add: logs_action_keeps_safe)
    moreover have
      "ToNumber (t_available (tools (snd (logs_action True action_req db)) ! ti))
              = ToNumber (t_quantity (tools db ! ti)) - ToNumber (t_rented (tools db ! ti)) + 1
          \<and> t_quantity (tools (snd (logs_action True action_req db)) ! ti)
              = t_quantity (tools db ! ti)
          \<and> t_rented (tools (snd (logs_action True action_req db)) ! ti)
              = t_rented (tools db ! ti)"
      if "aq_action action_req = js ''Repaired'' \<or> aq_action action_req = js ''MakeAvailable''"
      using apply_action_add [OF that, of "tools db ! ti"] bound counts exact
      by (simp add: logs_action_tools(1) [OF li ti])
    ultimately show ?thesis
      by blast
  qed
  have renting: "doc_inv (snd (rent parseFloat uuid now fs_ok rent_req db))
      \<and> safe_quantities (snd (rent parseFloat uuid now fs_ok rent_req db))"
    unfolding safe_tools_iff [symmetric] using good by (rule rent_keeps_safe)
  have catalogue: "\<forall>q. parseInt (tq_quantity tool_req) = Fin q \<and> q \<le> MAX_SAFE_INTEGER
             \<and> (find_tool_index (tools db) (tq_id tool_req) = None \<longrightarrow> 0 \<le> q)
          \<longrightarrow> doc_inv (snd (admin_tools toLowerCase parseFloat fs_ok tool_req db))
            \<and> safe_quantities (snd (admin_tools toLowerCase parseFloat fs_ok tool_req db))"
  proof (intro allI impI)
    fix q
    assume "parseInt (tq_quantity tool_req) = Fin q \<and> q \<le> MAX_SAFE_INTEGER
             \<and> (find_tool_index (tools db) (tq_id tool_req) = None \<longrightarrow> 0 \<le> q)"
    then have "parseInt (tq_quantity tool_req) = Fin q" and "q \<le> MAX_SAFE_INTEGER"
      and "find_tool_index (tools db) (tq_id tool_req) = None \<longrightarrow> 0 \<le> q"
      by simp_all
    with good show "doc_inv (snd (admin_tools toLowerCase parseFloat fs_ok tool_req db))
            \<and> safe_quantities (snd (admin_tools toLowerCase parseFloat fs_ok tool_req db))"
      unfolding safe_tools_iff [symmetric] by (rule admin_tools_keeps_safe)
  qed
  have deleting: "doc_inv (snd (delete_tool fs_ok toolId db))
      \<and> safe_quantities (snd (delete_tool fs_ok toolId db))"
    unfolding safe_tools_iff [symmetric] using good by (rule delete_tool_keeps_safe)
  have returning: "(\<forall>i. find_tool_index (tools db) (cq_toolId return_req) = Some i
              \<longrightarrow> 1 \<le> ToNumber (t_rented (tools db ! i)))
          \<longrightarrow> doc_inv (fst (snd (return_check env return_req db files)))
            \<and> safe_quantities (fst (snd (return_check env return_req db files)))"
    unfolding safe_tools_iff [symmetric]
    using good by (intro impI) (rule return_check_keeps_safe)
  have resolving: "\<forall>li ti. find_log_index (logs db) (aq_logId action_req) = Some li
             \<and> find_tool_index (tools db) (l_toolId (logs db ! li)) = Some ti
          \<longrightarrow> (aq_action action_req = js ''Remove'' \<and> t_rented (tools db ! ti) = Num 0
                 \<longrightarrow> doc_inv (snd (logs_action fs_ok action_req db))
                   \<and> safe_quantities (snd (logs_action fs_ok action_req db)))
            \<and> (aq_action action_req = js ''Repaired''
                 \<or> aq_action action_req = js ''MakeAvailable''
                 \<longrightarrow> ToNumber (t_available (tools (snd (logs_action True action_req db)) ! ti))
                       = ToNumber (t_quantity (tools db ! ti))
                           - ToNumber (t_rented (tools db ! ti)) + 1
                   \<and> t_quantity (tools (snd (logs_action True action_req db)) ! ti)
                       = t_quantity (tools db ! ti)
                   \<and> t_rented (tools (snd (logs_action True action_req db)) ! ti)
                       = t_rented (tools db ! ti))"
  proof (intro allI impI)
    fix li ti
    assume "find_log_index (logs db) (aq_logId action_req) = Some li
             \<and> find_tool_index (tools db) (l_toolId (logs db ! li)) = Some ti"
    then have "find_log_index (logs db) (aq_logId action_req) = Some li"
      and "find_tool_index (tools db) (l_toolId (logs db ! li)) = Some ti"
      by simp_all
    then show "(aq_action action_req = js ''Remove'' \<and> t_rented (tools db ! ti) = Num 0
                 \<longrightarrow> doc_inv (snd (logs_action fs_ok action_req db))
                   \<and> safe_quantities (snd (logs_action fs_ok action_req db)))
            \<and> (aq_action action_req = js ''Repaired''
                 \<or> aq_action action_req = js ''MakeAvailable''
                 \<longrightarrow> ToNumber (t_available (tools (snd (logs_action True action_req db)) ! ti))
                       = ToNumber (t_quantity (tools db ! ti))
                           - ToNumber (t_rented (tools db ! ti)) + 1
                   \<and> t_quantity (tools (snd (logs_action True action_req db)) ! ti)
                       = t_quantity (tools db ! ti)
                   \<and> t_rented (tools (snd (logs_action True action_req db)) ! ti)
                       = t_rented (tools db ! ti))"
      by (rule audit)
  qed
  from renting catalogue deleting returning resolving show ?thesis
    by blast
qed

theorem inventory_invariant_witness:
  "doc_inv sample_db
   \<and> safe_quantities sample_db
   \<and> doc_inv (snd (rent price_text (js ''u1'') (js ''2024-01-02T00:00:00.000Z'') True sample_rent
                     sample_db))
   \<and> parseInt (tq_quantity (create_request (js ''Saw'') (js ''3''))) = Fin 3
   \<and> 3 \<le> MAX_SAFE_INTEGER
   \<and> doc_inv (snd (admin_tools toLowerCase_ascii price_text True
                     (create_request (js ''Saw'') (js ''3'')) sample_db))
   \<and> doc_inv (snd (delete_tool True (js ''drill'') sample_db))
   \<and> find_tool_index (tools sample_db) (cq_toolId sample_return) = Some 0
   \<and> 1 \<le> ToNumber (t_rented (tools sample_db ! 0))
   \<and> doc_inv (fst (snd (return_check (sample_env high True) sample_return sample_db
                           sample_files)))
   \<and> doc_inv returned_db
   \<and> safe_quantities returned_db
   \<and> find_log_index (logs returned_db) (aq_logId (resolve_request (js ''Remove''))) = Some 0
   \<and> find_tool_index (tools returned_db) (l_toolId (logs returned_db ! 0)) = Some 0
   \<and> t_rented (tools returned_db ! 0) = Num 0
   \<and> doc_inv (snd (logs_action True (resolve_request (js ''Remove'')) returned_db))
   \<and> ToNumber (t_available
        (tools (snd (logs_action True (resolve_request (js ''Repaired'')) returned_db)) ! 0)) = 3"
proof -
  note on_sample = inventory_invariant [OF sample_db_inv sample_db_safe,
      where parseFloat = price_text and uuid = "js ''u1''"
        and now = "js ''2024-01-02T00:00:00.000Z''"
        and fs_ok = True and rent_req = sample_rent
        and toLowerCase = toLowerCase_ascii
        and tool_req = "create_request (js ''Saw'') (js ''3'')"
        and toolId = "js ''drill''" and return_req = sample_return
        and env = "sample_env high True" and files = sample_files]
  note on_remove = inventory_invariant [OF returned_db_inv returned_db_safe,
      where fs_ok = True and action_req = "resolve_request (js ''Remove'')"]
  note on_repaired = inventory_invariant [OF returned_db_inv returned_db_safe,
      where action_req = "resolve_request (js ''Repaired'')"]
  have quantity: "parseInt (tq_quantity (create_request (js ''Saw'') (js ''3''))) = Fin 3"
    by (simp add: create_request_def parseInt_3)
  have small: "3 \<le> MAX_SAFE_INTEGER"
    by (simp add: MAX_SAFE_INTEGER_def)
  have rented: "1 \<le> ToNumber (t_rented (tools sample_db ! 0))"
    by (simp add: sample_db_def drill_def)
  have none_rented: "t_rented (tools returned_db ! 0) = Num 0"
    and counts: "ToNumber (t_quantity (tools returned_db ! 0))
                   - ToNumber (t_rented (tools returned_db ! 0)) + 1 = 3"
    by (simp_all add: returned_db_eq drill_def)
  have action: "aq_action (resolve_request a) = a" for a
    by (simp add: resolve_request_def)
  have "doc_inv (snd (rent price_text (js ''u1'') (js ''2024-01-02T00:00:00.000Z'') True
                        sample_rent sample_db))"
    using on_sample by (rule conjunct1)
  moreover have "doc_inv (snd (admin_tools toLowerCase_ascii price_text True
                     (create_request (js ''Saw'') (js ''3'')) sample_db))"
    using on_sample quantity small by simp
  moreover have "doc_inv (snd (delete_tool True (js ''drill'') sample_db))"
    using on_sample by simp
  moreover have "doc_inv (fst (snd (return_check (sample_env high True) sample_return sample_db
                           sample_files)))"
    using on_sample sample_tool_index rented by simp
  moreover have "doc_inv (snd (logs_action True (resolve_request (js ''Remove'')) returned_db))"
    using on_remove returned_log_index [of "js ''Remove''"] returned_log_tool none_rented action
    by simp
  moreover have "ToNumber (t_available
        (tools (snd (logs_action True (resolve_request (js ''Repaired'')) returned_db)) ! 0)) = 3"
    using on_repaired returned_log_index [of "js ''Repaired''"] returned_log_tool action counts
    by simp
  ultimately show ?thesis
    using sample_db_inv sample_db_safe returned_db_inv returned_db_safe quantity small rented
      none_rented sample_tool_index returned_log_index [of "js ''Remove''"] returned_log_tool
    by (intro conjI)
qed

end
